theory Spec2Isabelle
  imports Complex_Main "HOL-Library.Word"
begin

unbundle bit_operations_syntax

section \<open>The background worker of powa.c\<close>

subsection \<open>Configuration\<close>

text \<open>
  \<^verbatim>\<open>static int powa_frequency;\<close> and \<^verbatim>\<open>static int min_powa_frequency = 5000;\<close>.
  The setting is registered with the range \<open>-1 .. INT_MAX / 1000\<close>, so no arithmetic
  on it overflows and it is modelled as an \<open>int\<close>; the current value is a field of the
  worker's state below.
\<close>

definition min_powa_frequency :: int where
  "min_powa_frequency = 5000"

subsection \<open>State of the worker process\<close>

text \<open>
  The program points of \<^verbatim>\<open>powa_main\<close> at which the process can be observed:
  \<^item> \<open>Starting\<close>: entry of \<^verbatim>\<open>powa_main\<close>, before the first
    \<^verbatim>\<open>die_on_too_small_frequency()\<close>; the handler of SIGHUP is not installed yet;
  \<^item> \<open>Unblocked\<close>: after \<^verbatim>\<open>pqsignal\<close> and \<^verbatim>\<open>BackgroundWorkerUnblockSignals\<close>,
    before the test \<^verbatim>\<open>powa_frequency < 0\<close> that precedes the connection;
  \<^item> \<open>LoopTop\<close>: at the head of \<^verbatim>\<open>while (true)\<close>, before the test
    \<^verbatim>\<open>powa_frequency < 0\<close>;
  \<^item> \<open>InTick\<close>: between \<^verbatim>\<open>INSTR_TIME_SET_CURRENT(begin)\<close> and the computation of
    \<^verbatim>\<open>time_to_wait\<close>, while the snapshot query runs;
  \<^item> \<open>Waiting t\<close>: inside \<^verbatim>\<open>WaitLatch\<close>, called with the timeout \<open>t\<close>;
  \<^item> \<open>Exited c\<close>: after \<^verbatim>\<open>exit(c)\<close>.
\<close>

datatype pc = Starting | Unblocked | LoopTop | InTick | Waiting int | Exited int

datatype log_line =
    TooSmallFrequency int      \<comment> \<open>"POWA frequency cannot be smaller than %i milliseconds"\<close>
  | Deactivated int            \<comment> \<open>"POWA is deactivated (powa.frequency = %i), exiting"\<close>
  | ConnectedToDatabase        \<comment> \<open>"POWA connected to database %s"\<close>
  | ExitsToDisconnect          \<comment> \<open>"POWA exits to disconnect from the database now"\<close>
  | WaitingFor int             \<comment> \<open>"Waiting for %li milliseconds" (DEBUG1)\<close>

record worker =
  powa_frequency :: int
  point :: pc
  connected :: bool            \<comment> \<open>\<^verbatim>\<open>BackgroundWorkerInitializeConnection\<close> has been called\<close>
  snapshots :: nat             \<comment> \<open>completed executions of "SELECT powa_take_snapshot()"\<close>
  waits :: "int list"          \<comment> \<open>the timeouts passed to \<^verbatim>\<open>WaitLatch\<close>, in order\<close>
  logged :: "log_line list"

definition start_worker :: "int \<Rightarrow> worker" where
  "start_worker f =
     \<lparr>powa_frequency = f, point = Starting, connected = False, snapshots = 0,
      waits = [], logged = []\<rparr>"

definition running :: "worker \<Rightarrow> bool" where
  "running w = (case point w of Exited c \<Rightarrow> False | _ \<Rightarrow> True)"

definition elog :: "log_line \<Rightarrow> worker \<Rightarrow> worker" where
  "elog l w = w\<lparr>logged := logged w @ [l]\<rparr>"

definition exit_with :: "int \<Rightarrow> worker \<Rightarrow> worker" where
  "exit_with c w = w\<lparr>point := Exited c\<rparr>"

subsection \<open>die\_on\_too\_small\_frequency and the reload handler\<close>

definition die_on_too_small_frequency :: "worker \<Rightarrow> worker" where
  "die_on_too_small_frequency w =
     (if powa_frequency w > 0 \<and> powa_frequency w < min_powa_frequency
      then exit_with 1 (elog (TooSmallFrequency min_powa_frequency) w)
      else w)"

text \<open>
  \<^verbatim>\<open>powa_sighup\<close>: \<^verbatim>\<open>ProcessConfigFile(PGC_SIGHUP)\<close> leaves the reloaded value \<open>v\<close> in
  \<^verbatim>\<open>powa_frequency\<close>, then the floor is checked again, inside the handler.
\<close>

definition powa_sighup :: "int \<Rightarrow> worker \<Rightarrow> worker" where
  "powa_sighup v w = die_on_too_small_frequency (w\<lparr>powa_frequency := v\<rparr>)"

subsection \<open>The compensated wait\<close>

text \<open>
  \<^verbatim>\<open>time_to_wait = powa_frequency - INSTR_TIME_GET_MILLISEC(end);\<close> where
  \<^verbatim>\<open>time_to_wait\<close> is a \<^verbatim>\<open>long\<close>. The macro belongs to the host's headers and yields
  the measured duration in milliseconds as a \<^verbatim>\<open>double\<close>, which carries fractions of a
  millisecond; the duration is the parameter \<open>d\<close>, a real number of milliseconds. The
  subtraction is done on doubles and the assignment converts the difference to
  \<^verbatim>\<open>long\<close>, which in C discards the fractional part (rounds toward zero). The
  arithmetic on doubles is taken as exact, and a difference outside the range of
  \<^verbatim>\<open>long\<close> is not considered.
\<close>

definition double_to_long :: "real \<Rightarrow> int" where
  "double_to_long x = (if x < 0 then \<lceil>x\<rceil> else \<lfloor>x\<rfloor>)"

definition time_to_wait :: "int \<Rightarrow> real \<Rightarrow> int" where
  "time_to_wait f d = double_to_long (of_int f - d)"

subsection \<open>powa\_main, one program step at a time\<close>

text \<open>
  \<open>powa_main_step d w\<close> runs the process from its program point to the next one.
  \<open>d\<close> is the duration the tick is measured to have taken, in milliseconds; it is
  read only by the step that leaves \<open>InTick\<close>.
\<close>

definition powa_main_step :: "real \<Rightarrow> worker \<Rightarrow> worker" where
  "powa_main_step d w =
     (case point w of
        Starting \<Rightarrow>
          (let w' = die_on_too_small_frequency w
           in if running w' then w'\<lparr>point := Unblocked\<rparr> else w')
      | Unblocked \<Rightarrow>
          (if powa_frequency w < 0
           then exit_with 1 (elog (Deactivated (powa_frequency w)) w)
           else (elog ConnectedToDatabase w)\<lparr>connected := True, point := LoopTop\<rparr>)
      | LoopTop \<Rightarrow>
          (if powa_frequency w < 0
           then exit_with 1 (elog ExitsToDisconnect w)
           else w\<lparr>point := InTick\<rparr>)
      | InTick \<Rightarrow>
          (let t = time_to_wait (powa_frequency w) d;
               w' = elog (WaitingFor t) (w\<lparr>snapshots := Suc (snapshots w)\<rparr>)
           in if t > 0
              then w'\<lparr>waits := waits w' @ [t], point := Waiting t\<rparr>
              else w'\<lparr>point := LoopTop\<rparr>)
      | Waiting t \<Rightarrow> w\<lparr>point := LoopTop\<rparr>
      | Exited c \<Rightarrow> w)"

text \<open>
  What happens to the process: it advances by one step, or a SIGHUP is delivered with
  the value the configuration file now holds. \<^verbatim>\<open>powa_sighup\<close> is installed by
  \<^verbatim>\<open>pqsignal(SIGHUP, powa_sighup)\<close> after the first floor check, so a signal at
  \<open>Starting\<close> does not run it, and a process that has exited runs nothing.
\<close>

datatype event = Sighup int | Proceed real

definition deliver :: "event \<Rightarrow> worker \<Rightarrow> worker" where
  "deliver e w =
     (case e of
        Proceed d \<Rightarrow> powa_main_step d w
      | Sighup v \<Rightarrow>
          (case point w of
             Starting \<Rightarrow> w
           | Exited c \<Rightarrow> w
           | _ \<Rightarrow> powa_sighup v w))"

fun run :: "event list \<Rightarrow> worker \<Rightarrow> worker" where
  "run [] w = w"
| "run (e # es) w = run es (deliver e w)"

section \<open>The statistics functions of powa.c\<close>

subsection \<open>The statistics entries of the host\<close>

text \<open>
  The structures of \<^verbatim>\<open>pgstat.h\<close> as far as \<^verbatim>\<open>powa_stat_common\<close> reads them. An
  \<^verbatim>\<open>Oid\<close> is an unsigned 32-bit integer; a \<^verbatim>\<open>PgStat_Counter\<close> and a
  \<^verbatim>\<open>TimestampTz\<close> are signed 64-bit integers, kept as 64-bit words (\<open>sint\<close> reads
  one as signed; \<open>-\<close> wraps).
\<close>

type_synonym Oid = "32 word"
type_synonym PgStat_Counter = "64 word"
type_synonym TimestampTz = "64 word"

record PgStat_StatFuncEntry =
  functionid :: Oid
  f_numcalls :: PgStat_Counter
  f_total_time :: PgStat_Counter
  f_self_time :: PgStat_Counter

record PgStat_StatTabEntry =
  tableid :: Oid
  numscans :: PgStat_Counter
  tuples_returned :: PgStat_Counter
  tuples_fetched :: PgStat_Counter
  tuples_inserted :: PgStat_Counter
  tuples_updated :: PgStat_Counter
  tuples_deleted :: PgStat_Counter
  tuples_hot_updated :: PgStat_Counter
  n_live_tuples :: PgStat_Counter
  n_dead_tuples :: PgStat_Counter
  changes_since_analyze :: PgStat_Counter
  blocks_fetched :: PgStat_Counter
  blocks_hit :: PgStat_Counter
  vacuum_timestamp :: TimestampTz
  vacuum_count :: PgStat_Counter
  autovac_vacuum_timestamp :: TimestampTz
  autovac_vacuum_count :: PgStat_Counter
  analyze_timestamp :: TimestampTz
  analyze_count :: PgStat_Counter
  autovac_analyze_timestamp :: TimestampTz
  autovac_analyze_count :: PgStat_Counter

text \<open>
  The two hash tables of a database entry are pointers that may be \<^verbatim>\<open>NULL\<close>
  (\<open>None\<close>); a table that exists is the list of its entries in the order in which
  \<^verbatim>\<open>hash_seq_search\<close> yields them. The field \<^verbatim>\<open>functions\<close> is \<open>functions_tab\<close> here.
\<close>

record PgStat_StatDBEntry =
  databaseid :: Oid
  tables :: "PgStat_StatTabEntry list option"
  functions_tab :: "PgStat_StatFuncEntry list option"

subsection \<open>Rows\<close>

datatype Datum =
    ZeroDatum                          \<comment> \<open>what \<^verbatim>\<open>memset(values, 0, sizeof(values))\<close> leaves\<close>
  | ObjectIdGetDatum Oid
  | Int64GetDatum "64 word"
  | Float8GetDatum real
  | TimestampTzGetDatum TimestampTz

record row =
  row_values :: "Datum list"
  row_nulls :: "bool list"

text \<open>
  A row under construction is the two arrays and the index \<^verbatim>\<open>i\<close>; every
  \<^verbatim>\<open>values[i++] = v\<close> and \<^verbatim>\<open>nulls[i++] = true\<close> writes one cell and moves on.
\<close>

type_synonym rowbuf = "row \<times> nat"

definition new_row :: "nat \<Rightarrow> rowbuf" where
  "new_row n = (\<lparr>row_values = replicate n ZeroDatum, row_nulls = replicate n False\<rparr>, 0)"

definition put_value :: "Datum \<Rightarrow> rowbuf \<Rightarrow> rowbuf" where
  "put_value v b = (case b of (r, i) \<Rightarrow> (r\<lparr>row_values := (row_values r)[i := v]\<rparr>, Suc i))"

definition put_null :: "rowbuf \<Rightarrow> rowbuf" where
  "put_null b = (case b of (r, i) \<Rightarrow> (r\<lparr>row_nulls := (row_nulls r)[i := True]\<rparr>, Suc i))"

definition fill :: "nat \<Rightarrow> (rowbuf \<Rightarrow> rowbuf) list \<Rightarrow> rowbuf" where
  "fill n steps = fold (\<lambda>step b. step b) steps (new_row n)"

definition POWA_STAT_FUNC_COLS :: nat where
  "POWA_STAT_FUNC_COLS = 4"

definition POWA_STAT_TAB_COLS :: nat where
  "POWA_STAT_TAB_COLS = 21"

datatype PowaStatKind = POWA_STAT_FUNCTION | POWA_STAT_TABLE

text \<open>
  \<^verbatim>\<open>((double) funcentry->f_total_time) / 1000.0\<close>: the conversion to \<^verbatim>\<open>double\<close> and
  the division are taken as exact, a \<^verbatim>\<open>float8\<close> being a real number here.
\<close>

definition ticks_to_ms :: "PgStat_Counter \<Rightarrow> real" where
  "ticks_to_ms c = real_of_int (sint c) / 1000"

definition func_row :: "PgStat_StatFuncEntry \<Rightarrow> rowbuf" where
  "func_row funcentry = fill POWA_STAT_FUNC_COLS
     [put_value (ObjectIdGetDatum (functionid funcentry)),
      put_value (Int64GetDatum (f_numcalls funcentry)),
      put_value (Float8GetDatum (ticks_to_ms (f_total_time funcentry))),
      put_value (Float8GetDatum (ticks_to_ms (f_self_time funcentry)))]"

definition put_timestamp :: "TimestampTz \<Rightarrow> rowbuf \<Rightarrow> rowbuf" where
  "put_timestamp ts b = (if ts = 0 then put_null b else put_value (TimestampTzGetDatum ts) b)"

definition tab_row :: "PgStat_StatTabEntry \<Rightarrow> rowbuf" where
  "tab_row tabentry = fill POWA_STAT_TAB_COLS
     [put_value (ObjectIdGetDatum (tableid tabentry)),
      put_value (Int64GetDatum (numscans tabentry)),
      put_value (Int64GetDatum (tuples_returned tabentry)),
      put_value (Int64GetDatum (tuples_fetched tabentry)),
      put_value (Int64GetDatum (tuples_inserted tabentry)),
      put_value (Int64GetDatum (tuples_updated tabentry)),
      put_value (Int64GetDatum (tuples_deleted tabentry)),
      put_value (Int64GetDatum (tuples_hot_updated tabentry)),
      put_value (Int64GetDatum (n_live_tuples tabentry)),
      put_value (Int64GetDatum (n_dead_tuples tabentry)),
      put_value (Int64GetDatum (changes_since_analyze tabentry)),
      put_value (Int64GetDatum (blocks_fetched tabentry - blocks_hit tabentry)),
      put_value (Int64GetDatum (blocks_hit tabentry)),
      put_timestamp (vacuum_timestamp tabentry),
      put_value (Int64GetDatum (vacuum_count tabentry)),
      put_timestamp (autovac_vacuum_timestamp tabentry),
      put_value (Int64GetDatum (autovac_vacuum_count tabentry)),
      put_timestamp (analyze_timestamp tabentry),
      put_value (Int64GetDatum (analyze_count tabentry)),
      put_timestamp (autovac_analyze_timestamp tabentry),
      put_value (Int64GetDatum (autovac_analyze_count tabentry))]"

subsection \<open>Errors, the caller and the host\<close>

datatype error =
    CannotAcceptSet          \<comment> \<open>"set-valued function called in context that cannot accept a set"\<close>
  | MaterializeNotAllowed    \<comment> \<open>"materialize mode required, but it is not allowed in this context"\<close>
  | NotRowType               \<comment> \<open>"return type must be a row type"\<close>
  | AssertionFailed          \<comment> \<open>\<^verbatim>\<open>Assert(i == POWA_STAT_..._COLS)\<close>\<close>
  | NullHashTable            \<comment> \<open>\<^verbatim>\<open>hash_seq_init\<close> and \<^verbatim>\<open>hash_seq_search\<close> on a \<^verbatim>\<open>NULL\<close> table\<close>
  | FetchFailed              \<comment> \<open>an error raised inside \<^verbatim>\<open>pgstat_fetch_stat_dbentry\<close>\<close>
  | PutvaluesFailed          \<comment> \<open>an error raised inside \<^verbatim>\<open>tuplestore_putvalues\<close>\<close>

datatype TypeFuncClass = TYPEFUNC_SCALAR | TYPEFUNC_COMPOSITE | TYPEFUNC_RECORD | TYPEFUNC_OTHER

record ReturnSetInfo =
  allowedModes :: "32 word"

datatype Node = T_ReturnSetInfo ReturnSetInfo | T_OtherNode

text \<open>
  What the function reads of its call: the first argument, \<^verbatim>\<open>fcinfo->resultinfo\<close>
  (a pointer, possibly \<^verbatim>\<open>NULL\<close>, to a node of any kind) and the class that
  \<^verbatim>\<open>get_call_result_type\<close> finds for the declared result type.
\<close>

record FunctionCallInfo =
  arg0 :: Oid
  resultinfo :: "Node option"
  call_result_type :: TypeFuncClass

text \<open>
  The bits of \<^verbatim>\<open>allowedModes\<close> are those of the host's enumeration
  \<^verbatim>\<open>SetFunctionReturnMode\<close> (\<^verbatim>\<open>nodes/execnodes.h\<close>): \<^verbatim>\<open>SFRM_ValuePerCall = 0x01\<close>,
  \<^verbatim>\<open>SFRM_Materialize = 0x02\<close>, \<^verbatim>\<open>SFRM_Materialize_Random = 0x04\<close> and
  \<^verbatim>\<open>SFRM_Materialize_Preferred = 0x08\<close>. The function tests the second one only.
\<close>

definition SFRM_Materialize :: "32 word" where
  "SFRM_Materialize = 0x02"

text \<open>
  The host as the function meets it. \<open>stat_dbentry h my d\<close> is what the statistics
  collector answers for database \<open>d\<close> to a backend that reads a fresh snapshot while
  its \<^verbatim>\<open>MyDatabaseId\<close> is \<open>my\<close>: an entry, no entry, or an error. \<open>tuplestore_room h\<close>
  is the number of rows after which \<^verbatim>\<open>tuplestore_putvalues\<close> raises an error
  (\<open>None\<close>: it never does).
\<close>

datatype fetch_outcome = FetchRaises | Fetched "PgStat_StatDBEntry option"

record host =
  stat_dbentry :: "Oid \<Rightarrow> Oid \<Rightarrow> fetch_outcome"
  tuplestore_room :: "nat option"

text \<open>
  The state of the session: the global \<^verbatim>\<open>MyDatabaseId\<close>, the statistics snapshot
  cached in the backend (\<open>None\<close> when there is none, \<open>Some my\<close> when one was read while
  \<^verbatim>\<open>MyDatabaseId\<close> was \<open>my\<close>), and the calls made to the statistics facility so far.
\<close>

datatype pgstat_call = ClearSnapshot | FetchStatDBEntry Oid

record session =
  MyDatabaseId :: Oid
  snapshot_of :: "Oid option"
  pgstat_calls :: "pgstat_call list"

definition pgstat_clear_snapshot :: "session \<Rightarrow> session" where
  "pgstat_clear_snapshot s =
     s\<lparr>snapshot_of := None, pgstat_calls := pgstat_calls s @ [ClearSnapshot]\<rparr>"

text \<open>
  \<^verbatim>\<open>pgstat_fetch_stat_dbentry\<close> answers from the cached snapshot when there is one
  and reads a new one for the current \<^verbatim>\<open>MyDatabaseId\<close> otherwise, as the comment in
  \<^verbatim>\<open>powa_stat_common\<close> describes. An error leaves the cache as it was.
\<close>

definition pgstat_fetch_stat_dbentry ::
  "host \<Rightarrow> Oid \<Rightarrow> session \<Rightarrow> session \<times> (error + PgStat_StatDBEntry option)" where
  "pgstat_fetch_stat_dbentry h dbid s =
     (let my = (case snapshot_of s of None \<Rightarrow> MyDatabaseId s | Some c \<Rightarrow> c);
          s' = s\<lparr>pgstat_calls := pgstat_calls s @ [FetchStatDBEntry dbid]\<rparr>
      in case stat_dbentry h my dbid of
           FetchRaises \<Rightarrow> (s', Inl FetchFailed)
         | Fetched e \<Rightarrow> (s'\<lparr>snapshot_of := Some my\<rparr>, Inr e))"

definition tuplestore_putvalues :: "host \<Rightarrow> row list \<Rightarrow> row \<Rightarrow> error + row list" where
  "tuplestore_putvalues h tupstore r =
     (case tuplestore_room h of
        None \<Rightarrow> Inr (tupstore @ [r])
      | Some n \<Rightarrow> if length tupstore < n then Inr (tupstore @ [r]) else Inl PutvaluesFailed)"

subsection \<open>powa\_stat\_common\<close>

text \<open>
  The body of either \<^verbatim>\<open>while ((entry = hash_seq_search(&hash_seq)) != NULL)\<close> loop,
  over the rows built from the entries still to come: the assertion on \<^verbatim>\<open>i\<close>, then
  \<^verbatim>\<open>tuplestore_putvalues\<close>.
\<close>

fun store_rows :: "host \<Rightarrow> nat \<Rightarrow> rowbuf list \<Rightarrow> row list \<Rightarrow> error + row list" where
  "store_rows h cols [] tupstore = Inr tupstore"
| "store_rows h cols (b # bs) tupstore =
     (if snd b \<noteq> cols then Inl AssertionFailed
      else case tuplestore_putvalues h tupstore (fst b) of
             Inl e \<Rightarrow> Inl e
           | Inr tupstore' \<Rightarrow> store_rows h cols bs tupstore')"

text \<open>
  Lines 359 to 456: the guard \<^verbatim>\<open>dbentry != NULL && dbentry->functions != NULL\<close>
  stands before the \<^verbatim>\<open>switch\<close> and so applies to both kinds; the table case then
  walks \<^verbatim>\<open>dbentry->tables\<close> without a test of its own.
\<close>

definition emit_rows ::
  "host \<Rightarrow> PowaStatKind \<Rightarrow> PgStat_StatDBEntry option \<Rightarrow> error + row list" where
  "emit_rows h kind dbentry =
     (case dbentry of
        None \<Rightarrow> Inr []
      | Some e \<Rightarrow>
          (case functions_tab e of
             None \<Rightarrow> Inr []
           | Some fs \<Rightarrow>
               (case kind of
                  POWA_STAT_FUNCTION \<Rightarrow>
                    store_rows h POWA_STAT_FUNC_COLS (map func_row fs) []
                | POWA_STAT_TABLE \<Rightarrow>
                    (case tables e of
                       None \<Rightarrow> Inl NullHashTable
                     | Some ts \<Rightarrow> store_rows h POWA_STAT_TAB_COLS (map tab_row ts) []))))"

text \<open>
  The result is the session as the call leaves it, and either the error that was
  raised or the rows of the tuplestore. An error leaves the function at the point
  where it is raised: nothing in \<^verbatim>\<open>powa_stat_common\<close> catches it.
\<close>

definition powa_stat_common ::
  "host \<Rightarrow> FunctionCallInfo \<Rightarrow> PowaStatKind \<Rightarrow> session \<Rightarrow> session \<times> (error + row list)" where
  "powa_stat_common h fcinfo kind s =
     (case resultinfo fcinfo of
        None \<Rightarrow> (s, Inl CannotAcceptSet)
      | Some T_OtherNode \<Rightarrow> (s, Inl CannotAcceptSet)
      | Some (T_ReturnSetInfo rsinfo) \<Rightarrow>
          if allowedModes rsinfo AND SFRM_Materialize = 0 then (s, Inl MaterializeNotAllowed)
          else if call_result_type fcinfo \<noteq> TYPEFUNC_COMPOSITE then (s, Inl NotRowType)
          else
            (let dbid = arg0 fcinfo;
                 s1 = pgstat_clear_snapshot s;
                 backend_dbid = MyDatabaseId s1;
                 s2 = s1\<lparr>MyDatabaseId := dbid\<rparr>
             in case pgstat_fetch_stat_dbentry h dbid s2 of
                  (s3, Inl e) \<Rightarrow> (s3, Inl e)
                | (s3, Inr dbentry) \<Rightarrow>
                    (let s4 = s3\<lparr>MyDatabaseId := backend_dbid\<rparr>
                     in case emit_rows h kind dbentry of
                          Inl e \<Rightarrow> (s4, Inl e)
                        | Inr tupstore \<Rightarrow> (pgstat_clear_snapshot s4, Inr tupstore))))"

definition powa_stat_user_functions ::
  "host \<Rightarrow> FunctionCallInfo \<Rightarrow> session \<Rightarrow> session \<times> (error + row list)" where
  "powa_stat_user_functions h fcinfo s = powa_stat_common h fcinfo POWA_STAT_FUNCTION s"

definition powa_stat_all_rel ::
  "host \<Rightarrow> FunctionCallInfo \<Rightarrow> session \<Rightarrow> session \<times> (error + row list)" where
  "powa_stat_all_rel h fcinfo s = powa_stat_common h fcinfo POWA_STAT_TABLE s"

subsection \<open>The checks on the caller, and room in the tuplestore\<close>

text \<open>
  The three tests at the head of \<^verbatim>\<open>powa_stat_common\<close> (lines 292 to 307), taken
  together: the result information is a \<^verbatim>\<open>ReturnSetInfo\<close>, materialize mode is
  allowed, and the declared result type is a row type.
\<close>

definition caller_contract :: "FunctionCallInfo \<Rightarrow> bool" where
  "caller_contract fcinfo =
     (case resultinfo fcinfo of
        None \<Rightarrow> False
      | Some T_OtherNode \<Rightarrow> False
      | Some (T_ReturnSetInfo rsinfo) \<Rightarrow>
          allowedModes rsinfo AND SFRM_Materialize \<noteq> 0 \<and>
          call_result_type fcinfo = TYPEFUNC_COMPOSITE)"

definition room_for :: "host \<Rightarrow> nat \<Rightarrow> bool" where
  "room_for h k = (case tuplestore_room h of None \<Rightarrow> True | Some n \<Rightarrow> k \<le> n)"



section \<open>Sample states and inputs\<close>

definition tick_5000 :: worker where
  "tick_5000 =
     \<lparr>powa_frequency = 5000, point = InTick, connected = True, snapshots = 0,
      waits = [], logged = [ConnectedToDatabase]\<rparr>"

definition tick_0 :: worker where
  "tick_0 =
     \<lparr>powa_frequency = 0, point = InTick, connected = True, snapshots = 0,
      waits = [], logged = [ConnectedToDatabase]\<rparr>"

definition looping :: worker where
  "looping =
     \<lparr>powa_frequency = 300000, point = Waiting 299000, connected = True,
      snapshots = 7, waits = [299000], logged = [ConnectedToDatabase]\<rparr>"

definition at_loop_top :: worker where
  "at_loop_top =
     \<lparr>powa_frequency = 300000, point = LoopTop, connected = True,
      snapshots = 8, waits = [299000], logged = [ConnectedToDatabase]\<rparr>"

definition materializing_caller :: "Oid \<Rightarrow> FunctionCallInfo" where
  "materializing_caller dbid =
     \<lparr>arg0 = dbid, resultinfo = Some (T_ReturnSetInfo \<lparr>allowedModes = 0x0B\<rparr>),
      call_result_type = TYPEFUNC_COMPOSITE\<rparr>"

definition backend :: session where
  "backend = \<lparr>MyDatabaseId = 12345, snapshot_of = Some 12345, pgstat_calls = []\<rparr>"

definition rel :: "Oid \<Rightarrow> TimestampTz \<Rightarrow> PgStat_StatTabEntry" where
  "rel oid vacuumed =
     \<lparr>tableid = oid, numscans = 10, tuples_returned = 200, tuples_fetched = 150,
      tuples_inserted = 40, tuples_updated = 7, tuples_deleted = 3, tuples_hot_updated = 2,
      n_live_tuples = 37, n_dead_tuples = 3, changes_since_analyze = 50,
      blocks_fetched = 90, blocks_hit = 60,
      vacuum_timestamp = vacuumed, vacuum_count = 1,
      autovac_vacuum_timestamp = 0, autovac_vacuum_count = 0,
      analyze_timestamp = 0, analyze_count = 0,
      autovac_analyze_timestamp = 0, autovac_analyze_count = 0\<rparr>"

definition func :: "Oid \<Rightarrow> PgStat_StatFuncEntry" where
  "func oid = \<lparr>functionid = oid, f_numcalls = 4, f_total_time = 2500, f_self_time = 1500\<rparr>"

definition three_relations :: PgStat_StatDBEntry where
  "three_relations =
     \<lparr>databaseid = 16384, tables = Some [rel 1 0, rel 2 500, rel 3 0],
      functions_tab = Some []\<rparr>"

definition one_function :: PgStat_StatDBEntry where
  "one_function =
     \<lparr>databaseid = 16384, tables = Some [], functions_tab = Some [func 77]\<rparr>"

text \<open>
  A collector that knows one database, and answers for it to a backend whose
  \<^verbatim>\<open>MyDatabaseId\<close> is that database; one whose answer never arrives; and a tuplestore
  that takes no row.
\<close>

definition store_of :: "PgStat_StatDBEntry \<Rightarrow> host" where
  "store_of e =
     \<lparr>stat_dbentry =
        (\<lambda>my d. if my = databaseid e \<and> d = databaseid e then Fetched (Some e)
                 else Fetched None),
      tuplestore_room = None\<rparr>"

definition failing_store :: host where
  "failing_store = \<lparr>stat_dbentry = (\<lambda>my d. FetchRaises), tuplestore_room = None\<rparr>"

definition full_tuplestore :: "PgStat_StatDBEntry \<Rightarrow> host" where
  "full_tuplestore e = (store_of e)\<lparr>tuplestore_room := Some 0\<rparr>"

section \<open>Properties of the worker\<close>

subsection \<open>Conversion and single steps\<close>

lemma double_to_long_of_int: "double_to_long (of_int n) = n"
  by (simp add: double_to_long_def)

lemma double_to_long_pos_iff: "0 < double_to_long x \<longleftrightarrow> 1 \<le> x"
  unfolding double_to_long_def by (auto simp: ceiling_le_iff less_floor_iff not_less)

lemma double_to_long_bounds:
  "0 \<le> x \<Longrightarrow> of_int (double_to_long x) \<le> x \<and> x - 1 < of_int (double_to_long x)"
  unfolding double_to_long_def by (auto; linarith)

lemma step_InTick:
  "point w = InTick \<Longrightarrow>
   powa_main_step d w =
     (if 0 < time_to_wait (powa_frequency w) d
      then w\<lparr>snapshots := Suc (snapshots w),
             logged := logged w @ [WaitingFor (time_to_wait (powa_frequency w) d)],
             waits := waits w @ [time_to_wait (powa_frequency w) d],
             point := Waiting (time_to_wait (powa_frequency w) d)\<rparr>
      else w\<lparr>snapshots := Suc (snapshots w),
             logged := logged w @ [WaitingFor (time_to_wait (powa_frequency w) d)],
             point := LoopTop\<rparr>)"
  by (simp add: powa_main_step_def elog_def Let_def)

lemma step_LoopTop_negative:
  "point w = LoopTop \<Longrightarrow> powa_frequency w < 0 \<Longrightarrow>
   powa_main_step d w = w\<lparr>logged := logged w @ [ExitsToDisconnect], point := Exited 1\<rparr>"
  by (simp add: powa_main_step_def elog_def exit_with_def)

lemma step_Waiting:
  "point w = Waiting t \<Longrightarrow> powa_main_step d w = w\<lparr>point := LoopTop\<rparr>"
  by (simp add: powa_main_step_def)

lemma step_Unblocked_negative:
  "point w = Unblocked \<Longrightarrow> powa_frequency w < 0 \<Longrightarrow>
   powa_main_step d w =
     w\<lparr>logged := logged w @ [Deactivated (powa_frequency w)], point := Exited 1\<rparr>"
  by (simp add: powa_main_step_def elog_def exit_with_def)

lemma step_Exited: "point w = Exited c \<Longrightarrow> powa_main_step d w = w"
  by (simp add: powa_main_step_def)

subsection \<open>The wait compensates for the duration of the tick\<close>

text \<open>
  C3, as the code has it. For every interval \<open>I\<close> and every measured duration \<open>d\<close>
  of a tick, in milliseconds and possibly fractional, the wait is \<open>I - d\<close> with its
  fractional part discarded. If \<open>d \<le> I - 1\<close> the worker calls \<^verbatim>\<open>WaitLatch\<close> with
  that timeout, which is positive, at most \<open>I - d\<close> and more than \<open>I - d - 1\<close>. If
  \<open>d > I - 1\<close>, and so whenever \<open>d \<ge> I\<close>, the wait is not positive and the worker
  goes back to the head of the loop without waiting. When \<open>d\<close> is a whole number of
  milliseconds the wait is exactly \<open>I - d\<close>: an interval of 5000 and a duration of
  1200 give 3800, and a duration of 6000 gives -1000, hence no wait.
\<close>

theorem time_to_wait_truncates:
  "point w = InTick \<and> powa_frequency w = I \<longrightarrow>
     (d \<le> real_of_int I - 1 \<longrightarrow>
        0 < time_to_wait I d \<and>
        real_of_int I - d - 1 < real_of_int (time_to_wait I d) \<and>
        real_of_int (time_to_wait I d) \<le> real_of_int I - d \<and>
        point (powa_main_step d w) = Waiting (time_to_wait I d) \<and>
        waits (powa_main_step d w) = waits w @ [time_to_wait I d]) \<and>
     (real_of_int I - 1 < d \<longrightarrow>
        time_to_wait I d \<le> 0 \<and>
        point (powa_main_step d w) = LoopTop \<and>
        waits (powa_main_step d w) = waits w) \<and>
     time_to_wait I (real_of_int m) = I - m \<and>
     time_to_wait 5000 1200 = 3800 \<and>
     time_to_wait 5000 6000 = - 1000"
proof (intro impI, elim conjE)
  assume w: "point w = InTick" "powa_frequency w = I"
  have pos: "0 < time_to_wait I d \<longleftrightarrow> d \<le> real_of_int I - 1"
    unfolding time_to_wait_def double_to_long_pos_iff by linarith
  have a: "d \<le> real_of_int I - 1 \<longrightarrow>
        0 < time_to_wait I d \<and>
        real_of_int I - d - 1 < real_of_int (time_to_wait I d) \<and>
        real_of_int (time_to_wait I d) \<le> real_of_int I - d \<and>
        point (powa_main_step d w) = Waiting (time_to_wait I d) \<and>
        waits (powa_main_step d w) = waits w @ [time_to_wait I d]"
  proof
    assume h: "d \<le> real_of_int I - 1"
    then have "0 \<le> real_of_int I - d" by linarith
    from double_to_long_bounds [OF this] pos h w show
      "0 < time_to_wait I d \<and>
        real_of_int I - d - 1 < real_of_int (time_to_wait I d) \<and>
        real_of_int (time_to_wait I d) \<le> real_of_int I - d \<and>
        point (powa_main_step d w) = Waiting (time_to_wait I d) \<and>
        waits (powa_main_step d w) = waits w @ [time_to_wait I d]"
      by (simp add: step_InTick time_to_wait_def)
  qed
  have b: "real_of_int I - 1 < d \<longrightarrow>
        time_to_wait I d \<le> 0 \<and>
        point (powa_main_step d w) = LoopTop \<and>
        waits (powa_main_step d w) = waits w"
    using pos w by (auto simp: step_InTick)
  have c: "time_to_wait I (real_of_int m) = I - m"
    using double_to_long_of_int [of "I - m"] by (simp add: time_to_wait_def)
  have e: "time_to_wait 5000 1200 = 3800" "time_to_wait 5000 6000 = - 1000"
    by (simp_all add: time_to_wait_def double_to_long_def)
  from a b c e show "(d \<le> real_of_int I - 1 \<longrightarrow>
        0 < time_to_wait I d \<and>
        real_of_int I - d - 1 < real_of_int (time_to_wait I d) \<and>
        real_of_int (time_to_wait I d) \<le> real_of_int I - d \<and>
        point (powa_main_step d w) = Waiting (time_to_wait I d) \<and>
        waits (powa_main_step d w) = waits w @ [time_to_wait I d]) \<and>
     (real_of_int I - 1 < d \<longrightarrow>
        time_to_wait I d \<le> 0 \<and>
        point (powa_main_step d w) = LoopTop \<and>
        waits (powa_main_step d w) = waits w) \<and>
     time_to_wait I (real_of_int m) = I - m \<and>
     time_to_wait 5000 1200 = 3800 \<and>
     time_to_wait 5000 6000 = - 1000"
    by blast
qed

theorem time_to_wait_truncates_witness:
  "point tick_5000 = InTick \<and> powa_frequency tick_5000 = 5000 \<and>
   (1200 :: real) \<le> real_of_int 5000 - 1 \<and>
   point (powa_main_step 1200 tick_5000) = Waiting 3800 \<and>
   waits (powa_main_step 1200 tick_5000) = [3800] \<and>
   real_of_int 5000 - 1 < (6000 :: real) \<and>
   point (powa_main_step 6000 tick_5000) = LoopTop \<and>
   waits (powa_main_step 6000 tick_5000) = []"
  using time_to_wait_truncates [of tick_5000 5000 1200 0]
    time_to_wait_truncates [of tick_5000 5000 6000 0]
  by (simp add: tick_5000_def)

text \<open>
  The claim as it was stated fails on a duration that is not a whole number of
  milliseconds. With an interval of 5000 and a tick of 4999.5 ms the duration is
  below the interval, yet the worker does not wait at all; with a tick of 1200.5 ms
  it waits 3799 ms, not 3799.5.
\<close>

theorem wait_not_exact_counterexample:
  "(9999 / 2 :: real) < real_of_int 5000 \<and>
   point (powa_main_step (9999 / 2) tick_5000) = LoopTop \<and>
   waits (powa_main_step (9999 / 2) tick_5000) = [] \<and>
   (2401 / 2 :: real) < real_of_int 5000 \<and>
   point (powa_main_step (2401 / 2) tick_5000) = Waiting 3799 \<and>
   real_of_int 3799 \<noteq> real_of_int 5000 - 2401 / 2"
  by (simp add: tick_5000_def step_InTick time_to_wait_def double_to_long_def)

subsection \<open>Exit paths\<close>

lemma deliver_exit_status: "point w \<noteq> Exited 0 \<Longrightarrow> point (deliver e w) \<noteq> Exited 0"
  by (cases e; cases "point w")
     (auto simp: deliver_def powa_main_step_def powa_sighup_def die_on_too_small_frequency_def
        exit_with_def elog_def running_def Let_def)

lemma run_exit_status: "point w \<noteq> Exited 0 \<Longrightarrow> point (run es w) \<noteq> Exited 0"
  by (induction es arbitrary: w) (simp_all add: deliver_exit_status)

lemma deliver_exited: "\<not> running w \<Longrightarrow> deliver e w = w"
  by (cases e; cases "point w") (simp_all add: deliver_def powa_main_step_def running_def)

lemma run_exited: "\<not> running w \<Longrightarrow> run es w = w"
  by (induction es) (simp_all add: deliver_exited)

lemma sighup_negative:
  "v < 0 \<Longrightarrow> running w \<Longrightarrow> point w \<noteq> Starting \<Longrightarrow>
   deliver (Sighup v) w = w\<lparr>powa_frequency := v\<rparr>"
  by (cases "point w")
     (simp_all add: deliver_def powa_sighup_def die_on_too_small_frequency_def running_def)

lemma negative_exits_within_three:
  assumes "powa_frequency w < 0" "running w" "point w \<noteq> Starting"
  shows "point (run [Proceed d1, Proceed d2, Proceed d3] w) = Exited 1 \<and>
         snapshots (run [Proceed d1, Proceed d2, Proceed d3] w) =
           (if point w = InTick then Suc (snapshots w) else snapshots w)"
proof (cases "point w")
  case Starting
  with assms show ?thesis by simp
next
  case Unblocked
  with assms show ?thesis
    by (simp add: deliver_def step_Unblocked_negative step_Exited)
next
  case LoopTop
  with assms show ?thesis
    by (simp add: deliver_def step_LoopTop_negative step_Exited)
next
  case InTick
  with assms show ?thesis
    by (simp add: deliver_def step_InTick step_Waiting step_LoopTop_negative step_Exited)
next
  case (Waiting t)
  with assms show ?thesis
    by (simp add: deliver_def step_Waiting step_LoopTop_negative step_Exited)
next
  case (Exited c)
  with assms show ?thesis by (simp add: running_def)
qed

text \<open>
  C4. Whatever steps and reloads happen to a worker started with any interval
  \<open>f\<close>, it never reaches \<^verbatim>\<open>exit(0)\<close>. A worker started with a negative interval
  exits with status 1 at the test before the connection, logging that it is
  deactivated, and has not connected. When a reload brings a negative value \<open>v\<close> to a
  worker that is past its start, the handler only stores it; from the head of the
  loop the next step is \<^verbatim>\<open>exit(1)\<close>, and from any other point the worker reaches
  the head of the loop and exits with status 1 within three steps, in which no
  snapshot is taken beyond the one that was running when the signal came.
\<close>

theorem exit_status_never_zero:
  "point (run es (start_worker f)) \<noteq> Exited 0 \<and>
   (f < 0 \<longrightarrow>
      point (run [Proceed d1, Proceed d2] (start_worker f)) = Exited 1 \<and>
      \<not> connected (run [Proceed d1, Proceed d2] (start_worker f)) \<and>
      logged (run [Proceed d1, Proceed d2] (start_worker f)) = [Deactivated f]) \<and>
   (v < 0 \<and> running w \<and> point w \<noteq> Starting \<longrightarrow>
      powa_frequency (deliver (Sighup v) w) = v \<and>
      (point w = LoopTop \<longrightarrow> point (run [Sighup v, Proceed d1] w) = Exited 1) \<and>
      point (run [Sighup v, Proceed d1, Proceed d2, Proceed d3] w) = Exited 1 \<and>
      snapshots (run [Sighup v, Proceed d1, Proceed d2, Proceed d3] w) =
        (if point w = InTick then Suc (snapshots w) else snapshots w))"
proof (intro conjI impI)
  show "point (run es (start_worker f)) \<noteq> Exited 0"
    by (rule run_exit_status) (simp add: start_worker_def)
next
  assume f: "f < 0"
  then have r: "run [Proceed d1, Proceed d2] (start_worker f) =
    (start_worker f)\<lparr>logged := [Deactivated f], point := Exited 1\<rparr>"
    by (simp add: deliver_def powa_main_step_def start_worker_def
          die_on_too_small_frequency_def running_def elog_def exit_with_def)
  show "point (run [Proceed d1, Proceed d2] (start_worker f)) = Exited 1"
    by (simp only: r) simp
  show "\<not> connected (run [Proceed d1, Proceed d2] (start_worker f))"
    by (simp only: r) (simp add: start_worker_def)
  show "logged (run [Proceed d1, Proceed d2] (start_worker f)) = [Deactivated f]"
    by (simp only: r) simp
next
  assume h: "v < 0 \<and> running w \<and> point w \<noteq> Starting"
  then have s: "deliver (Sighup v) w = w\<lparr>powa_frequency := v\<rparr>"
    by (simp add: sighup_negative)
  show "powa_frequency (deliver (Sighup v) w) = v"
    by (simp add: s)
  have n: "powa_frequency (w\<lparr>powa_frequency := v\<rparr>) < 0" "running (w\<lparr>powa_frequency := v\<rparr>)"
    "point (w\<lparr>powa_frequency := v\<rparr>) \<noteq> Starting"
    using h by (simp_all add: running_def)
  from negative_exits_within_three [OF n, of d1 d2 d3]
  show "point (run [Sighup v, Proceed d1, Proceed d2, Proceed d3] w) = Exited 1"
    and "snapshots (run [Sighup v, Proceed d1, Proceed d2, Proceed d3] w) =
        (if point w = InTick then Suc (snapshots w) else snapshots w)"
    using s by simp_all
  show "point (run [Sighup v, Proceed d1] w) = Exited 1" if "point w = LoopTop"
    using that h s by (simp add: deliver_def [of "Proceed d1"] step_LoopTop_negative)
qed

theorem exit_status_never_zero_witness:
  "(-1::int) < 0 \<and> running looping \<and> point looping \<noteq> Starting \<and>
   point (run [Proceed 0, Proceed 0] (start_worker (-1))) = Exited 1 \<and>
   \<not> connected (run [Proceed 0, Proceed 0] (start_worker (-1))) \<and>
   point (run [Sighup (-1), Proceed 0, Proceed 0, Proceed 0] looping) = Exited 1 \<and>
   snapshots (run [Sighup (-1), Proceed 0, Proceed 0, Proceed 0] looping) = 7 \<and>
   running at_loop_top \<and> point at_loop_top = LoopTop \<and>
   point (run [Sighup (-1), Proceed 0] at_loop_top) = Exited 1"
proof -
  have a: "running looping \<and> point looping \<noteq> Starting"
    "running at_loop_top \<and> point at_loop_top \<noteq> Starting" "point at_loop_top = LoopTop"
    by (simp_all add: looping_def at_loop_top_def running_def)
  from exit_status_never_zero [of "[]" "-1" 0 0 "-1" looping 0] a(1)
  have b: "point (run [Proceed 0, Proceed 0] (start_worker (-1))) = Exited 1"
    "\<not> connected (run [Proceed 0, Proceed 0] (start_worker (-1)))"
    "point (run [Sighup (-1), Proceed 0, Proceed 0, Proceed 0] looping) = Exited 1"
    "snapshots (run [Sighup (-1), Proceed 0, Proceed 0, Proceed 0] looping) =
       (if point looping = InTick then Suc (snapshots looping) else snapshots looping)"
    by simp_all
  from exit_status_never_zero [of "[]" "-1" 0 0 "-1" at_loop_top 0] a(2,3)
  have c: "point (run [Sighup (-1), Proceed 0] at_loop_top) = Exited 1"
    by simp
  have "snapshots (run [Sighup (-1), Proceed 0, Proceed 0, Proceed 0] looping) = 7"
    by (simp only: b(4)) (simp add: looping_def)
  with a b(1-3) c show ?thesis by simp
qed

text \<open>
  C5. Let \<open>v\<close> be positive and below the floor of 5000 ms. A worker started with
  \<open>v\<close> logs that the frequency cannot be smaller than the floor and exits with
  status 1 at its first step. A reload that brings \<open>v\<close> to a worker past its start
  does the same inside the handler: the value stored is \<open>v\<close> itself, not the floor,
  the message is logged and the status is 1. In both cases nothing that follows
  changes the state, so no further snapshot is taken.
\<close>

theorem too_small_frequency_is_fatal:
  "0 < v \<and> v < min_powa_frequency \<longrightarrow>
     powa_main_step d (start_worker v) =
       (start_worker v)\<lparr>point := Exited 1, logged := [TooSmallFrequency min_powa_frequency]\<rparr> \<and>
     run es (powa_main_step d (start_worker v)) = powa_main_step d (start_worker v) \<and>
     (running w \<and> point w \<noteq> Starting \<longrightarrow>
        deliver (Sighup v) w =
          w\<lparr>powa_frequency := v, point := Exited 1,
            logged := logged w @ [TooSmallFrequency min_powa_frequency]\<rparr> \<and>
        run es (deliver (Sighup v) w) = deliver (Sighup v) w)"
proof (intro impI, elim conjE)
  assume v: "0 < v" "v < min_powa_frequency"
  have a: "powa_main_step d (start_worker v) =
       (start_worker v)\<lparr>point := Exited 1, logged := [TooSmallFrequency min_powa_frequency]\<rparr>"
    using v by (simp add: powa_main_step_def start_worker_def die_on_too_small_frequency_def
          running_def elog_def exit_with_def)
  have b: "run es (powa_main_step d (start_worker v)) = powa_main_step d (start_worker v)"
    by (rule run_exited) (simp add: a running_def)
  have c: "deliver (Sighup v) w =
          w\<lparr>powa_frequency := v, point := Exited 1,
            logged := logged w @ [TooSmallFrequency min_powa_frequency]\<rparr>"
    if "running w \<and> point w \<noteq> Starting"
    using that v by (cases "point w")
      (simp_all add: deliver_def powa_sighup_def die_on_too_small_frequency_def running_def
         elog_def exit_with_def)
  have e: "run es (deliver (Sighup v) w) = deliver (Sighup v) w"
    if "running w \<and> point w \<noteq> Starting"
    by (rule run_exited) (simp add: c [OF that] running_def)
  from a b c e show "powa_main_step d (start_worker v) =
       (start_worker v)\<lparr>point := Exited 1, logged := [TooSmallFrequency min_powa_frequency]\<rparr> \<and>
     run es (powa_main_step d (start_worker v)) = powa_main_step d (start_worker v) \<and>
     (running w \<and> point w \<noteq> Starting \<longrightarrow>
        deliver (Sighup v) w =
          w\<lparr>powa_frequency := v, point := Exited 1,
            logged := logged w @ [TooSmallFrequency min_powa_frequency]\<rparr> \<and>
        run es (deliver (Sighup v) w) = deliver (Sighup v) w)"
    by blast
qed

theorem too_small_frequency_is_fatal_witness:
  "(0::int) < 4999 \<and> 4999 < min_powa_frequency \<and> running looping \<and> point looping \<noteq> Starting \<and>
   point (powa_main_step 0 (start_worker 4999)) = Exited 1 \<and>
   snapshots (run [Proceed 0, Proceed 0, Proceed 0] (powa_main_step 0 (start_worker 4999))) = 0 \<and>
   point (deliver (Sighup 4999) looping) = Exited 1 \<and>
   powa_frequency (deliver (Sighup 4999) looping) = 4999 \<and>
   snapshots (run [Proceed 0, Proceed 0, Proceed 0] (deliver (Sighup 4999) looping)) = 7"
proof -
  let ?es = "[Proceed 0, Proceed 0, Proceed 0]"
  have h: "(0::int) < 4999 \<and> 4999 < min_powa_frequency"
    by (simp add: min_powa_frequency_def)
  have r: "running looping \<and> point looping \<noteq> Starting"
    by (simp add: looping_def running_def)
  from too_small_frequency_is_fatal [of 4999 0 ?es looping] h r
  have a: "powa_main_step 0 (start_worker 4999) =
       (start_worker 4999)\<lparr>point := Exited 1, logged := [TooSmallFrequency min_powa_frequency]\<rparr>"
    and b: "run ?es (powa_main_step 0 (start_worker 4999)) = powa_main_step 0 (start_worker 4999)"
    and c: "deliver (Sighup 4999) looping =
          looping\<lparr>powa_frequency := 4999, point := Exited 1,
            logged := logged looping @ [TooSmallFrequency min_powa_frequency]\<rparr>"
    and e: "run ?es (deliver (Sighup 4999) looping) = deliver (Sighup 4999) looping"
    by blast+
  have "snapshots (run ?es (powa_main_step 0 (start_worker 4999))) = 0"
    by (simp only: b, simp only: a, simp add: start_worker_def)
  moreover have "snapshots (run ?es (deliver (Sighup 4999) looping)) = 7"
    by (simp only: e, simp only: c, simp add: looping_def)
  moreover have "point (powa_main_step 0 (start_worker 4999)) = Exited 1"
    unfolding a by simp
  moreover have "point (deliver (Sighup 4999) looping) = Exited 1"
    "powa_frequency (deliver (Sighup 4999) looping) = 4999"
    unfolding c by simp_all
  ultimately show ?thesis using h r by blast
qed

subsection \<open>An interval of zero\<close>

lemma time_to_wait_zero: "0 \<le> d \<Longrightarrow> time_to_wait 0 d \<le> 0"
  using double_to_long_pos_iff [of "- d"] by (simp add: time_to_wait_def not_less [symmetric])

lemma zero_step:
  assumes "powa_frequency w = 0" "running w" "waits w = []" "0 \<le> d"
  shows "powa_frequency (powa_main_step d w) = 0 \<and> running (powa_main_step d w) \<and>
         waits (powa_main_step d w) = []"
  using assms time_to_wait_zero [of d]
  by (cases "point w")
     (auto simp: powa_main_step_def die_on_too_small_frequency_def running_def elog_def Let_def)

lemma zero_run:
  "powa_frequency w = 0 \<Longrightarrow> running w \<Longrightarrow> waits w = [] \<Longrightarrow> \<forall>d\<in>set ds. 0 \<le> d \<Longrightarrow>
   powa_frequency (run (map Proceed ds) w) = 0 \<and> running (run (map Proceed ds) w) \<and>
   waits (run (map Proceed ds) w) = []"
proof (induction ds arbitrary: w)
  case Nil
  then show ?case by simp
next
  case (Cons d ds)
  from zero_step [of w d] Cons.prems have
    "powa_frequency (powa_main_step d w) = 0 \<and> running (powa_main_step d w) \<and>
         waits (powa_main_step d w) = []" by simp
  with Cons.IH [of "powa_main_step d w"] Cons.prems show ?case
    by (simp add: deliver_def)
qed

text \<open>
  C10. A worker started with the interval 0 passes the floor check and the test
  before the connection, connects, passes the test at the head of the loop, and is in
  its first tick after three steps, with nothing logged but the connection. Whenever a
  tick of a worker whose interval is 0 is measured to have taken \<open>d \<ge> 0\<close>, the wait
  \<open>0 - d\<close> is not positive, and two steps later the worker is in its next tick, one
  snapshot further, \<^verbatim>\<open>WaitLatch\<close> not having been called. If no reload happens and
  every duration is non-negative, such a worker never exits and never waits.
\<close>

theorem zero_frequency_never_sleeps:
  "run [Proceed d1, Proceed d2, Proceed d3] (start_worker 0) =
     \<lparr>powa_frequency = 0, point = InTick, connected = True, snapshots = 0, waits = [],
      logged = [ConnectedToDatabase]\<rparr> \<and>
   (powa_frequency w = 0 \<and> point w = InTick \<and> 0 \<le> d \<longrightarrow>
      time_to_wait 0 d \<le> 0 \<and>
      run [Proceed d, Proceed d'] w =
        w\<lparr>snapshots := Suc (snapshots w),
          logged := logged w @ [WaitingFor (time_to_wait 0 d)], point := InTick\<rparr>) \<and>
   ((\<forall>d\<in>set ds. 0 \<le> d) \<longrightarrow>
      running (run (map Proceed ds) (start_worker 0)) \<and>
      waits (run (map Proceed ds) (start_worker 0)) = [])"
proof (intro conjI impI)
  show "run [Proceed d1, Proceed d2, Proceed d3] (start_worker 0) =
     \<lparr>powa_frequency = 0, point = InTick, connected = True, snapshots = 0, waits = [],
      logged = [ConnectedToDatabase]\<rparr>"
    by (simp add: deliver_def powa_main_step_def start_worker_def
          die_on_too_small_frequency_def running_def elog_def)
next
  assume h: "powa_frequency w = 0 \<and> point w = InTick \<and> 0 \<le> d"
  then show t: "time_to_wait 0 d \<le> 0" by (simp add: time_to_wait_zero)
  with h show "run [Proceed d, Proceed d'] w =
        w\<lparr>snapshots := Suc (snapshots w),
          logged := logged w @ [WaitingFor (time_to_wait 0 d)], point := InTick\<rparr>"
    by (simp add: deliver_def step_InTick) (simp add: powa_main_step_def)
next
  assume "\<forall>d\<in>set ds. 0 \<le> d"
  with zero_run [of "start_worker 0" ds]
  show "running (run (map Proceed ds) (start_worker 0))"
    and "waits (run (map Proceed ds) (start_worker 0)) = []"
    by (simp_all add: start_worker_def running_def)
qed

theorem zero_frequency_never_sleeps_witness:
  "powa_frequency tick_0 = 0 \<and> point tick_0 = InTick \<and> (0::real) \<le> 1200 \<and>
   (0::real) \<le> 7 / 2 \<and>
   time_to_wait 0 1200 = - 1200 \<and>
   point (run [Proceed 1200, Proceed 0] tick_0) = InTick \<and>
   snapshots (run [Proceed 1200, Proceed 0] tick_0) = 1 \<and>
   waits (run [Proceed 1200, Proceed 0] tick_0) = [] \<and>
   running (run (map Proceed [1200, 0, 7 / 2]) (start_worker 0)) \<and>
   waits (run (map Proceed [1200, 0, 7 / 2]) (start_worker 0)) = []"
  using zero_frequency_never_sleeps [of 0 0 0 tick_0 1200 0 "[1200, 0, 7 / 2]"]
  by (simp add: tick_0_def time_to_wait_def double_to_long_def)

section \<open>Properties of the statistics functions\<close>

subsection \<open>Rows, written out\<close>

lemma func_row_eq:
  "func_row f =
     (\<lparr>row_values = [ObjectIdGetDatum (functionid f), Int64GetDatum (f_numcalls f),
                      Float8GetDatum (real_of_int (sint (f_total_time f)) / 1000),
                      Float8GetDatum (real_of_int (sint (f_self_time f)) / 1000)],
       row_nulls = [False, False, False, False]\<rparr>, POWA_STAT_FUNC_COLS)"
  by (simp add: func_row_def fill_def new_row_def put_value_def POWA_STAT_FUNC_COLS_def
        ticks_to_ms_def eval_nat_numeral)

lemma tab_row_eq:
  "tab_row t =
     (\<lparr>row_values =
         [ObjectIdGetDatum (tableid t),
          Int64GetDatum (numscans t),
          Int64GetDatum (tuples_returned t),
          Int64GetDatum (tuples_fetched t),
          Int64GetDatum (tuples_inserted t),
          Int64GetDatum (tuples_updated t),
          Int64GetDatum (tuples_deleted t),
          Int64GetDatum (tuples_hot_updated t),
          Int64GetDatum (n_live_tuples t),
          Int64GetDatum (n_dead_tuples t),
          Int64GetDatum (changes_since_analyze t),
          Int64GetDatum (blocks_fetched t - blocks_hit t),
          Int64GetDatum (blocks_hit t),
          (if vacuum_timestamp t = 0 then ZeroDatum
           else TimestampTzGetDatum (vacuum_timestamp t)),
          Int64GetDatum (vacuum_count t),
          (if autovac_vacuum_timestamp t = 0 then ZeroDatum
           else TimestampTzGetDatum (autovac_vacuum_timestamp t)),
          Int64GetDatum (autovac_vacuum_count t),
          (if analyze_timestamp t = 0 then ZeroDatum
           else TimestampTzGetDatum (analyze_timestamp t)),
          Int64GetDatum (analyze_count t),
          (if autovac_analyze_timestamp t = 0 then ZeroDatum
           else TimestampTzGetDatum (autovac_analyze_timestamp t)),
          Int64GetDatum (autovac_analyze_count t)],
       row_nulls =
         [False, False, False, False, False, False, False, False, False, False, False,
          False, False,
          vacuum_timestamp t = 0, False,
          autovac_vacuum_timestamp t = 0, False,
          analyze_timestamp t = 0, False,
          autovac_analyze_timestamp t = 0, False]\<rparr>, POWA_STAT_TAB_COLS)"
  by (simp add: tab_row_def fill_def new_row_def put_value_def put_null_def put_timestamp_def
        POWA_STAT_TAB_COLS_def eval_nat_numeral)


subsection \<open>The loops and the frame around them\<close>

lemma store_rows_Inr:
  "store_rows h cols bs acc = Inr rows \<Longrightarrow> rows = acc @ map fst bs"
proof (induction bs arbitrary: acc)
  case Nil
  then show ?case by simp
next
  case (Cons b bs)
  from Cons.prems have "store_rows h cols bs (acc @ [fst b]) = Inr rows"
    by (auto simp: tuplestore_putvalues_def split: if_splits option.splits sum.splits)
  from Cons.IH [OF this] show ?case by simp
qed

lemma store_rows_room:
  "\<forall>b\<in>set bs. snd b = cols \<Longrightarrow> room_for h (length acc + length bs) \<Longrightarrow>
   store_rows h cols bs acc = Inr (acc @ map fst bs)"
proof (induction bs arbitrary: acc)
  case Nil
  then show ?case by simp
next
  case (Cons b bs)
  from Cons.prems have p: "tuplestore_putvalues h acc (fst b) = Inr (acc @ [fst b])"
    by (auto simp: tuplestore_putvalues_def room_for_def split: option.splits)
  from Cons.prems have "room_for h (length (acc @ [fst b]) + length bs)" by simp
  with Cons.IH [of "acc @ [fst b]"] Cons.prems p show ?case by simp
qed

lemma common_rejects:
  "\<not> caller_contract fcinfo \<Longrightarrow> fst (powa_stat_common h fcinfo kind s) = s \<and>
     (\<exists>e. snd (powa_stat_common h fcinfo kind s) = Inl e)"
  by (auto simp: caller_contract_def powa_stat_common_def split: option.splits Node.splits)

lemma common_fetch_raises:
  "caller_contract fcinfo \<Longrightarrow> stat_dbentry h (arg0 fcinfo) (arg0 fcinfo) = FetchRaises \<Longrightarrow>
   powa_stat_common h fcinfo kind s =
     (\<lparr>MyDatabaseId = arg0 fcinfo, snapshot_of = None,
       pgstat_calls = pgstat_calls s @ [ClearSnapshot, FetchStatDBEntry (arg0 fcinfo)]\<rparr>,
      Inl FetchFailed)"
  by (auto simp: caller_contract_def powa_stat_common_def pgstat_clear_snapshot_def
        pgstat_fetch_stat_dbentry_def Let_def split: option.splits Node.splits)

lemma common_fetched:
  "caller_contract fcinfo \<Longrightarrow> stat_dbentry h (arg0 fcinfo) (arg0 fcinfo) = Fetched dbentry \<Longrightarrow>
   powa_stat_common h fcinfo kind s =
     (case emit_rows h kind dbentry of
        Inl e \<Rightarrow>
          (\<lparr>MyDatabaseId = MyDatabaseId s, snapshot_of = Some (arg0 fcinfo),
            pgstat_calls = pgstat_calls s @ [ClearSnapshot, FetchStatDBEntry (arg0 fcinfo)]\<rparr>,
           Inl e)
      | Inr tupstore \<Rightarrow>
          (\<lparr>MyDatabaseId = MyDatabaseId s, snapshot_of = None,
            pgstat_calls = pgstat_calls s @
              [ClearSnapshot, FetchStatDBEntry (arg0 fcinfo), ClearSnapshot]\<rparr>,
           Inr tupstore))"
  by (auto simp: caller_contract_def powa_stat_common_def pgstat_clear_snapshot_def
        pgstat_fetch_stat_dbentry_def Let_def split: option.splits Node.splits sum.splits)

lemma func_rows_cols: "\<forall>b\<in>set (map func_row fs). snd b = POWA_STAT_FUNC_COLS"
  by (simp add: func_row_eq)

lemma tab_rows_cols: "\<forall>b\<in>set (map tab_row ts). snd b = POWA_STAT_TAB_COLS"
  by (simp add: tab_row_eq)


lemma emit_rows_None: "emit_rows h kind None = Inr []"
  by (simp add: emit_rows_def)

lemma emit_rows_functions:
  "functions_tab e = Some fs \<Longrightarrow> room_for h (length fs) \<Longrightarrow>
   emit_rows h POWA_STAT_FUNCTION (Some e) = Inr (map (\<lambda>f. fst (func_row f)) fs)"
  using store_rows_room [of "map func_row fs" POWA_STAT_FUNC_COLS h "[]"]
  by (simp add: emit_rows_def func_rows_cols comp_def)

lemma emit_rows_tables:
  "functions_tab e = Some fs \<Longrightarrow> tables e = Some ts \<Longrightarrow> room_for h (length ts) \<Longrightarrow>
   emit_rows h POWA_STAT_TABLE (Some e) = Inr (map (\<lambda>t. fst (tab_row t)) ts)"
  using store_rows_room [of "map tab_row ts" POWA_STAT_TAB_COLS h "[]"]
  by (simp add: emit_rows_def tab_rows_cols comp_def)

lemma emit_rows_tables_Inr:
  "emit_rows h POWA_STAT_TABLE (Some e) = Inr rows \<Longrightarrow> tables e = Some ts \<Longrightarrow>
   rows = (if functions_tab e = None then [] else map (\<lambda>t. fst (tab_row t)) ts)"
  by (auto simp: emit_rows_def comp_def split: option.splits dest: store_rows_Inr)

lemma emit_rows_functions_Inr:
  "emit_rows h POWA_STAT_FUNCTION (Some e) = Inr rows \<Longrightarrow> functions_tab e = Some fs \<Longrightarrow>
   rows = map (\<lambda>f. fst (func_row f)) fs"
  by (auto simp: emit_rows_def comp_def split: option.splits dest: store_rows_Inr)

lemma common_Inr_contract:
  "snd (powa_stat_common h fcinfo kind s) = Inr rows \<Longrightarrow> caller_contract fcinfo"
  using common_rejects [of fcinfo h kind s] by auto

lemma common_Inr_emit:
  assumes "snd (powa_stat_common h fcinfo kind s) = Inr rows"
    and "stat_dbentry h (arg0 fcinfo) (arg0 fcinfo) = Fetched dbentry"
  shows "emit_rows h kind dbentry = Inr rows"
proof -
  from assms(1) have "caller_contract fcinfo" by (rule common_Inr_contract)
  from common_fetched [OF this assms(2), of kind s] assms(1) show ?thesis
    by (cases "emit_rows h kind dbentry") simp_all
qed

subsection \<open>The sample inputs\<close>

lemma sample_contract: "caller_contract (materializing_caller d)"
  by (simp add: caller_contract_def materializing_caller_def SFRM_Materialize_def)

lemma sample_fetch:
  "databaseid e = d \<Longrightarrow>
   stat_dbentry (store_of e) (arg0 (materializing_caller d)) (arg0 (materializing_caller d)) =
     Fetched (Some e)"
  by (simp add: store_of_def materializing_caller_def)

lemma sample_all_rel:
  "snd (powa_stat_all_rel (store_of three_relations) (materializing_caller 16384) backend) =
     Inr [fst (tab_row (rel 1 0)), fst (tab_row (rel 2 500)), fst (tab_row (rel 3 0))]"
proof -
  have d: "databaseid three_relations = 16384" by (simp add: three_relations_def)
  have e: "emit_rows (store_of three_relations) POWA_STAT_TABLE (Some three_relations) =
      Inr [fst (tab_row (rel 1 0)), fst (tab_row (rel 2 500)), fst (tab_row (rel 3 0))]"
    using emit_rows_tables [of three_relations "[]" "[rel 1 0, rel 2 500, rel 3 0]"
        "store_of three_relations"]
    by (simp add: three_relations_def room_for_def store_of_def)
  show ?thesis
    by (simp add: powa_stat_all_rel_def common_fetched [OF sample_contract sample_fetch [OF d]] e)
qed

lemma sample_user_functions:
  "snd (powa_stat_user_functions (store_of one_function) (materializing_caller 16384) backend) =
     Inr [fst (func_row (func 77))]"
proof -
  have d: "databaseid one_function = 16384" by (simp add: one_function_def)
  have e: "emit_rows (store_of one_function) POWA_STAT_FUNCTION (Some one_function) =
      Inr [fst (func_row (func 77))]"
    using emit_rows_functions [of one_function "[func 77]" "store_of one_function"]
    by (simp add: one_function_def room_for_def store_of_def)
  show ?thesis
    by (simp add: powa_stat_user_functions_def
          common_fetched [OF sample_contract sample_fetch [OF d]] e)
qed

subsection \<open>What the two functions return\<close>



text \<open>
  C2, as the code has it. Let the call pass the checks on the caller, and let
  \<^verbatim>\<open>pgstat_fetch_stat_dbentry\<close> return, with an entry or without. Then
  \<^verbatim>\<open>MyDatabaseId\<close> has its original value when the call ends, whether it ends with
  its rows or with an error raised while a row is built and stored: line 357 restores
  it before the first row. And whenever the call returns its rows, the snapshot has
  been cleared again after the fetch: the calls made to the statistics facility are a
  clear, the fetch and a clear.
\<close>

theorem scope_restored_when_fetch_returns:
  "caller_contract fcinfo \<and> stat_dbentry h (arg0 fcinfo) (arg0 fcinfo) \<noteq> FetchRaises \<longrightarrow>
     MyDatabaseId (fst (powa_stat_common h fcinfo kind s)) = MyDatabaseId s \<and>
     (\<forall>rows. snd (powa_stat_common h fcinfo kind s) = Inr rows \<longrightarrow>
        snapshot_of (fst (powa_stat_common h fcinfo kind s)) = None \<and>
        pgstat_calls (fst (powa_stat_common h fcinfo kind s)) =
          pgstat_calls s @ [ClearSnapshot, FetchStatDBEntry (arg0 fcinfo), ClearSnapshot])"
proof (intro impI, elim conjE)
  assume c: "caller_contract fcinfo"
    and "stat_dbentry h (arg0 fcinfo) (arg0 fcinfo) \<noteq> FetchRaises"
  then obtain dbentry where "stat_dbentry h (arg0 fcinfo) (arg0 fcinfo) = Fetched dbentry"
    by (cases "stat_dbentry h (arg0 fcinfo) (arg0 fcinfo)") simp_all
  note cf = common_fetched [OF c this, of kind s]
  have a: "MyDatabaseId (fst (powa_stat_common h fcinfo kind s)) = MyDatabaseId s"
    by (simp add: cf split: sum.splits)
  have b: "\<forall>rows. snd (powa_stat_common h fcinfo kind s) = Inr rows \<longrightarrow>
        snapshot_of (fst (powa_stat_common h fcinfo kind s)) = None \<and>
        pgstat_calls (fst (powa_stat_common h fcinfo kind s)) =
          pgstat_calls s @ [ClearSnapshot, FetchStatDBEntry (arg0 fcinfo), ClearSnapshot]"
    by (simp add: cf split: sum.splits)
  from a b show
    "MyDatabaseId (fst (powa_stat_common h fcinfo kind s)) = MyDatabaseId s \<and>
     (\<forall>rows. snd (powa_stat_common h fcinfo kind s) = Inr rows \<longrightarrow>
        snapshot_of (fst (powa_stat_common h fcinfo kind s)) = None \<and>
        pgstat_calls (fst (powa_stat_common h fcinfo kind s)) =
          pgstat_calls s @ [ClearSnapshot, FetchStatDBEntry (arg0 fcinfo), ClearSnapshot])"
    by blast
qed

text \<open>
  The claim as it was stated fails in both ways, nothing in \<^verbatim>\<open>powa_stat_common\<close>
  being run when an error passes through it. A fetch that raises an error leaves
  \<^verbatim>\<open>MyDatabaseId\<close> at 16384 in a backend of database 12345; a tuplestore that
  refuses the first row leaves the snapshot of database 16384 cached.
\<close>

theorem scope_left_overridden_counterexample:
  "MyDatabaseId backend = 12345 \<and>
   powa_stat_all_rel failing_store (materializing_caller 16384) backend =
     (\<lparr>MyDatabaseId = 16384, snapshot_of = None,
       pgstat_calls = [ClearSnapshot, FetchStatDBEntry 16384]\<rparr>, Inl FetchFailed) \<and>
   powa_stat_user_functions (full_tuplestore one_function) (materializing_caller 16384) backend =
     (\<lparr>MyDatabaseId = 12345, snapshot_of = Some 16384,
       pgstat_calls = [ClearSnapshot, FetchStatDBEntry 16384]\<rparr>, Inl PutvaluesFailed)"
proof -
  have a: "stat_dbentry failing_store (arg0 (materializing_caller 16384))
          (arg0 (materializing_caller 16384)) = FetchRaises"
    by (simp add: failing_store_def)
  have b: "stat_dbentry (full_tuplestore one_function) (arg0 (materializing_caller 16384))
          (arg0 (materializing_caller 16384)) = Fetched (Some one_function)"
    by (simp add: full_tuplestore_def store_of_def materializing_caller_def one_function_def)
  have e: "emit_rows (full_tuplestore one_function) POWA_STAT_FUNCTION (Some one_function) =
      Inl PutvaluesFailed"
    by (simp add: emit_rows_def one_function_def func_row_eq tuplestore_putvalues_def
          full_tuplestore_def)
  show ?thesis
    using common_fetch_raises [OF sample_contract a, of POWA_STAT_TABLE backend]
      common_fetched [OF sample_contract b, of POWA_STAT_FUNCTION backend] e
    by (simp add: powa_stat_all_rel_def powa_stat_user_functions_def backend_def
          materializing_caller_def)
qed

theorem scope_restored_when_fetch_returns_witness:
  "caller_contract (materializing_caller 16384) \<and>
   stat_dbentry (store_of three_relations) (arg0 (materializing_caller 16384))
     (arg0 (materializing_caller 16384)) \<noteq> FetchRaises \<and>
   snd (powa_stat_common (store_of three_relations) (materializing_caller 16384)
     POWA_STAT_TABLE backend) =
     Inr [fst (tab_row (rel 1 0)), fst (tab_row (rel 2 500)), fst (tab_row (rel 3 0))] \<and>
   MyDatabaseId (fst (powa_stat_common (store_of three_relations) (materializing_caller 16384)
     POWA_STAT_TABLE backend)) = 12345 \<and>
   snapshot_of (fst (powa_stat_common (store_of three_relations) (materializing_caller 16384)
     POWA_STAT_TABLE backend)) = None \<and>
   pgstat_calls (fst (powa_stat_common (store_of three_relations) (materializing_caller 16384)
     POWA_STAT_TABLE backend)) = [ClearSnapshot, FetchStatDBEntry 16384, ClearSnapshot] \<and>
   stat_dbentry (full_tuplestore one_function) (arg0 (materializing_caller 16384))
     (arg0 (materializing_caller 16384)) \<noteq> FetchRaises \<and>
   snd (powa_stat_common (full_tuplestore one_function) (materializing_caller 16384)
     POWA_STAT_FUNCTION backend) = Inl PutvaluesFailed \<and>
   MyDatabaseId (fst (powa_stat_common (full_tuplestore one_function)
     (materializing_caller 16384) POWA_STAT_FUNCTION backend)) = 12345"
proof -
  let ?c = "materializing_caller 16384"
  have b: "stat_dbentry (store_of three_relations) (arg0 ?c) (arg0 ?c) =
      Fetched (Some three_relations)"
    by (simp add: sample_fetch three_relations_def)
  have b': "stat_dbentry (full_tuplestore one_function) (arg0 ?c) (arg0 ?c) =
      Fetched (Some one_function)"
    by (simp add: full_tuplestore_def store_of_def materializing_caller_def one_function_def)
  have r: "snd (powa_stat_common (store_of three_relations) ?c POWA_STAT_TABLE backend) =
      Inr [fst (tab_row (rel 1 0)), fst (tab_row (rel 2 500)), fst (tab_row (rel 3 0))]"
    using sample_all_rel by (simp add: powa_stat_all_rel_def)
  have e: "emit_rows (full_tuplestore one_function) POWA_STAT_FUNCTION (Some one_function) =
      Inl PutvaluesFailed"
    by (simp add: emit_rows_def one_function_def func_row_eq tuplestore_putvalues_def
          full_tuplestore_def)
  have r': "snd (powa_stat_common (full_tuplestore one_function) ?c POWA_STAT_FUNCTION backend) =
      Inl PutvaluesFailed"
    by (simp add: common_fetched [OF sample_contract b'] e)
  have m: "MyDatabaseId backend = 12345" "pgstat_calls backend = []" "arg0 ?c = 16384"
    by (simp_all add: backend_def materializing_caller_def)
  from scope_restored_when_fetch_returns [of ?c "store_of three_relations" POWA_STAT_TABLE
      backend] sample_contract [of 16384] b r m
  have 1: "MyDatabaseId (fst (powa_stat_common (store_of three_relations) ?c
       POWA_STAT_TABLE backend)) = 12345"
    "snapshot_of (fst (powa_stat_common (store_of three_relations) ?c
       POWA_STAT_TABLE backend)) = None"
    "pgstat_calls (fst (powa_stat_common (store_of three_relations) ?c
       POWA_STAT_TABLE backend)) = [ClearSnapshot, FetchStatDBEntry 16384, ClearSnapshot]"
    by simp_all
  from scope_restored_when_fetch_returns [of ?c "full_tuplestore one_function"
      POWA_STAT_FUNCTION backend] sample_contract [of 16384] b' m
  have 2: "MyDatabaseId (fst (powa_stat_common (full_tuplestore one_function) ?c
       POWA_STAT_FUNCTION backend)) = 12345"
    by simp
  from 1 2 r r' b b' sample_contract [of 16384] show ?thesis by simp
qed

text \<open>
  C6. When the call passes the checks on the caller and the fetch finds no entry for
  the database, \<^verbatim>\<open>powa_stat_user_functions\<close> and \<^verbatim>\<open>powa_stat_all_rel\<close> both
  return an empty set of rows and no error; \<^verbatim>\<open>MyDatabaseId\<close> is restored and the
  snapshot is cleared.
\<close>

theorem no_entry_gives_no_rows:
  "caller_contract fcinfo \<and> stat_dbentry h (arg0 fcinfo) (arg0 fcinfo) = Fetched None \<longrightarrow>
     powa_stat_user_functions h fcinfo s =
       (\<lparr>MyDatabaseId = MyDatabaseId s, snapshot_of = None,
         pgstat_calls = pgstat_calls s @
           [ClearSnapshot, FetchStatDBEntry (arg0 fcinfo), ClearSnapshot]\<rparr>, Inr []) \<and>
     powa_stat_all_rel h fcinfo s =
       (\<lparr>MyDatabaseId = MyDatabaseId s, snapshot_of = None,
         pgstat_calls = pgstat_calls s @
           [ClearSnapshot, FetchStatDBEntry (arg0 fcinfo), ClearSnapshot]\<rparr>, Inr [])"
  by (simp add: powa_stat_user_functions_def powa_stat_all_rel_def common_fetched
        emit_rows_None)

theorem no_entry_gives_no_rows_witness:
  "caller_contract (materializing_caller 999) \<and>
   stat_dbentry (store_of three_relations) (arg0 (materializing_caller 999))
     (arg0 (materializing_caller 999)) = Fetched None \<and>
   powa_stat_user_functions (store_of three_relations) (materializing_caller 999) backend =
     (\<lparr>MyDatabaseId = 12345, snapshot_of = None,
       pgstat_calls = [ClearSnapshot, FetchStatDBEntry 999, ClearSnapshot]\<rparr>, Inr []) \<and>
   powa_stat_all_rel (store_of three_relations) (materializing_caller 999) backend =
     (\<lparr>MyDatabaseId = 12345, snapshot_of = None,
       pgstat_calls = [ClearSnapshot, FetchStatDBEntry 999, ClearSnapshot]\<rparr>, Inr [])"
proof -
  have a: "stat_dbentry (store_of three_relations) (arg0 (materializing_caller 999))
     (arg0 (materializing_caller 999)) = Fetched None"
    by (simp add: store_of_def materializing_caller_def three_relations_def)
  from no_entry_gives_no_rows [of "materializing_caller 999" "store_of three_relations" backend]
    sample_contract [of 999] a
  show ?thesis by (simp add: backend_def materializing_caller_def)
qed

text \<open>
  C9. When the result information is missing or is not a \<^verbatim>\<open>ReturnSetInfo\<close>, when
  materialize mode is not allowed, or when the declared result type is not a row
  type, the call ends with the matching error and the session is what it was: no
  call to the statistics facility has been made, the snapshot is untouched and
  \<^verbatim>\<open>MyDatabaseId\<close> has not been written.
\<close>

theorem contract_violation_leaves_session:
  "(resultinfo fcinfo = None \<or> resultinfo fcinfo = Some T_OtherNode \<longrightarrow>
      powa_stat_common h fcinfo kind s = (s, Inl CannotAcceptSet)) \<and>
   (resultinfo fcinfo = Some (T_ReturnSetInfo rsinfo) \<and>
    allowedModes rsinfo AND SFRM_Materialize = 0 \<longrightarrow>
      powa_stat_common h fcinfo kind s = (s, Inl MaterializeNotAllowed)) \<and>
   (resultinfo fcinfo = Some (T_ReturnSetInfo rsinfo) \<and>
    allowedModes rsinfo AND SFRM_Materialize \<noteq> 0 \<and>
    call_result_type fcinfo \<noteq> TYPEFUNC_COMPOSITE \<longrightarrow>
      powa_stat_common h fcinfo kind s = (s, Inl NotRowType)) \<and>
   (\<not> caller_contract fcinfo \<longrightarrow>
      fst (powa_stat_user_functions h fcinfo s) = s \<and>
      fst (powa_stat_all_rel h fcinfo s) = s \<and>
      snd (powa_stat_user_functions h fcinfo s) \<in>
        {Inl CannotAcceptSet, Inl MaterializeNotAllowed, Inl NotRowType} \<and>
      snd (powa_stat_all_rel h fcinfo s) \<in>
        {Inl CannotAcceptSet, Inl MaterializeNotAllowed, Inl NotRowType})"
  by (auto simp: powa_stat_common_def powa_stat_user_functions_def powa_stat_all_rel_def
        caller_contract_def split: option.splits Node.splits)


theorem contract_violation_leaves_session_witness:
  "powa_stat_common (store_of three_relations)
     ((materializing_caller 16384)\<lparr>resultinfo := None\<rparr>) POWA_STAT_TABLE backend =
     (backend, Inl CannotAcceptSet) \<and>
   powa_stat_common (store_of three_relations)
     ((materializing_caller 16384)\<lparr>resultinfo := Some T_OtherNode\<rparr>) POWA_STAT_FUNCTION backend =
     (backend, Inl CannotAcceptSet) \<and>
   (0x01 :: 32 word) AND SFRM_Materialize = 0 \<and>
   powa_stat_common (store_of three_relations)
     ((materializing_caller 16384)\<lparr>resultinfo := Some (T_ReturnSetInfo \<lparr>allowedModes = 0x01\<rparr>)\<rparr>)
     POWA_STAT_TABLE backend = (backend, Inl MaterializeNotAllowed) \<and>
   (0x05 :: 32 word) AND SFRM_Materialize = 0 \<and>
   powa_stat_common (store_of three_relations)
     ((materializing_caller 16384)\<lparr>resultinfo := Some (T_ReturnSetInfo \<lparr>allowedModes = 0x05\<rparr>)\<rparr>)
     POWA_STAT_FUNCTION backend = (backend, Inl MaterializeNotAllowed) \<and>
   (0x0B :: 32 word) AND SFRM_Materialize \<noteq> 0 \<and>
   powa_stat_common (store_of three_relations)
     ((materializing_caller 16384)\<lparr>call_result_type := TYPEFUNC_SCALAR\<rparr>)
     POWA_STAT_TABLE backend = (backend, Inl NotRowType) \<and>
   \<not> caller_contract ((materializing_caller 16384)\<lparr>call_result_type := TYPEFUNC_SCALAR\<rparr>) \<and>
   fst (powa_stat_all_rel (store_of three_relations)
     ((materializing_caller 16384)\<lparr>call_result_type := TYPEFUNC_SCALAR\<rparr>) backend) = backend"
proof -
  let ?h = "store_of three_relations"
  let ?c = "materializing_caller 16384"
  have m: "(0x01 :: 32 word) AND SFRM_Materialize = 0"
    "(0x05 :: 32 word) AND SFRM_Materialize = 0"
    "(0x0B :: 32 word) AND SFRM_Materialize \<noteq> 0"
    by (simp_all add: SFRM_Materialize_def)
  have n: "\<not> caller_contract (?c\<lparr>call_result_type := TYPEFUNC_SCALAR\<rparr>)"
    by (simp add: caller_contract_def materializing_caller_def)
  from contract_violation_leaves_session [where fcinfo = "?c\<lparr>resultinfo := None\<rparr>"
      and h = ?h and kind = POWA_STAT_TABLE and s = backend]
  have 1: "powa_stat_common ?h (?c\<lparr>resultinfo := None\<rparr>) POWA_STAT_TABLE backend =
     (backend, Inl CannotAcceptSet)" by simp
  from contract_violation_leaves_session [where fcinfo = "?c\<lparr>resultinfo := Some T_OtherNode\<rparr>"
      and h = ?h and kind = POWA_STAT_FUNCTION and s = backend]
  have 2: "powa_stat_common ?h (?c\<lparr>resultinfo := Some T_OtherNode\<rparr>) POWA_STAT_FUNCTION backend =
     (backend, Inl CannotAcceptSet)" by simp
  from contract_violation_leaves_session
      [where fcinfo = "?c\<lparr>resultinfo := Some (T_ReturnSetInfo \<lparr>allowedModes = 0x01\<rparr>)\<rparr>"
        and rsinfo = "\<lparr>allowedModes = 0x01\<rparr>" and h = ?h and kind = POWA_STAT_TABLE
        and s = backend] m(1)
  have 3: "powa_stat_common ?h
     (?c\<lparr>resultinfo := Some (T_ReturnSetInfo \<lparr>allowedModes = 0x01\<rparr>)\<rparr>)
     POWA_STAT_TABLE backend = (backend, Inl MaterializeNotAllowed)" by simp
  from contract_violation_leaves_session
      [where fcinfo = "?c\<lparr>resultinfo := Some (T_ReturnSetInfo \<lparr>allowedModes = 0x05\<rparr>)\<rparr>"
        and rsinfo = "\<lparr>allowedModes = 0x05\<rparr>" and h = ?h and kind = POWA_STAT_FUNCTION
        and s = backend] m(2)
  have 4: "powa_stat_common ?h
     (?c\<lparr>resultinfo := Some (T_ReturnSetInfo \<lparr>allowedModes = 0x05\<rparr>)\<rparr>)
     POWA_STAT_FUNCTION backend = (backend, Inl MaterializeNotAllowed)" by simp
  from contract_violation_leaves_session
      [where fcinfo = "?c\<lparr>call_result_type := TYPEFUNC_SCALAR\<rparr>"
        and rsinfo = "\<lparr>allowedModes = 0x0B\<rparr>" and h = ?h and kind = POWA_STAT_TABLE
        and s = backend] m(3) n
  have 5: "powa_stat_common ?h (?c\<lparr>call_result_type := TYPEFUNC_SCALAR\<rparr>)
     POWA_STAT_TABLE backend = (backend, Inl NotRowType)"
    and 6: "fst (powa_stat_all_rel ?h (?c\<lparr>call_result_type := TYPEFUNC_SCALAR\<rparr>) backend) = backend"
    by (simp_all add: materializing_caller_def)
  from 1 2 3 4 5 6 m n show ?thesis by blast
qed

lemma all_rel_rows:
  assumes "snd (powa_stat_all_rel h fcinfo s) = Inr rows"
    and "stat_dbentry h (arg0 fcinfo) (arg0 fcinfo) = Fetched (Some e)"
    and "tables e = Some ts"
  shows "rows = (if functions_tab e = None then [] else map (\<lambda>t. fst (tab_row t)) ts)"
proof -
  from assms(1) have "snd (powa_stat_common h fcinfo POWA_STAT_TABLE s) = Inr rows"
    by (simp add: powa_stat_all_rel_def)
  from common_Inr_emit [OF this assms(2)] assms(3) show ?thesis
    by (rule emit_rows_tables_Inr)
qed

lemma user_functions_rows:
  assumes "snd (powa_stat_user_functions h fcinfo s) = Inr rows"
    and "stat_dbentry h (arg0 fcinfo) (arg0 fcinfo) = Fetched (Some e)"
    and "functions_tab e = Some fs"
  shows "rows = map (\<lambda>f. fst (func_row f)) fs"
proof -
  from assms(1) have "snd (powa_stat_common h fcinfo POWA_STAT_FUNCTION s) = Inr rows"
    by (simp add: powa_stat_user_functions_def)
  from common_Inr_emit [OF this assms(2)] assms(3) show ?thesis
    by (rule emit_rows_functions_Inr)
qed

lemma tab_row_timestamps:
  "(row_nulls (fst (tab_row t)) ! 13 \<longleftrightarrow> vacuum_timestamp t = 0) \<and>
   (vacuum_timestamp t \<noteq> 0 \<longrightarrow>
      row_values (fst (tab_row t)) ! 13 = TimestampTzGetDatum (vacuum_timestamp t)) \<and>
   (row_nulls (fst (tab_row t)) ! 15 \<longleftrightarrow> autovac_vacuum_timestamp t = 0) \<and>
   (autovac_vacuum_timestamp t \<noteq> 0 \<longrightarrow>
      row_values (fst (tab_row t)) ! 15 = TimestampTzGetDatum (autovac_vacuum_timestamp t)) \<and>
   (row_nulls (fst (tab_row t)) ! 17 \<longleftrightarrow> analyze_timestamp t = 0) \<and>
   (analyze_timestamp t \<noteq> 0 \<longrightarrow>
      row_values (fst (tab_row t)) ! 17 = TimestampTzGetDatum (analyze_timestamp t)) \<and>
   (row_nulls (fst (tab_row t)) ! 19 \<longleftrightarrow> autovac_analyze_timestamp t = 0) \<and>
   (autovac_analyze_timestamp t \<noteq> 0 \<longrightarrow>
      row_values (fst (tab_row t)) ! 19 = TimestampTzGetDatum (autovac_analyze_timestamp t))"
  by (simp add: tab_row_eq)

text \<open>
  C7. Let \<^verbatim>\<open>powa_stat_all_rel\<close> return rows for an entry whose table of relations
  is \<open>ts\<close>. The rows are built from the relations in order (all of them when the
  table of functions exists). In every row, each of the columns 13, 15, 17 and 19
  (last vacuum, last auto-vacuum, last analyze, last auto-analyze) is null exactly
  when the timestamp of the relation is 0, and holds that timestamp otherwise.
\<close>

theorem timestamp_null_iff_zero:
  "snd (powa_stat_all_rel h fcinfo s) = Inr rows \<and>
   stat_dbentry h (arg0 fcinfo) (arg0 fcinfo) = Fetched (Some e) \<and>
   tables e = Some ts \<longrightarrow>
     length rows \<le> length ts \<and>
     (functions_tab e \<noteq> None \<longrightarrow> length rows = length ts) \<and>
     (\<forall>k<length rows.
        (row_nulls (rows ! k) ! 13 \<longleftrightarrow> vacuum_timestamp (ts ! k) = 0) \<and>
        (vacuum_timestamp (ts ! k) \<noteq> 0 \<longrightarrow>
           row_values (rows ! k) ! 13 = TimestampTzGetDatum (vacuum_timestamp (ts ! k))) \<and>
        (row_nulls (rows ! k) ! 15 \<longleftrightarrow> autovac_vacuum_timestamp (ts ! k) = 0) \<and>
        (autovac_vacuum_timestamp (ts ! k) \<noteq> 0 \<longrightarrow>
           row_values (rows ! k) ! 15 =
             TimestampTzGetDatum (autovac_vacuum_timestamp (ts ! k))) \<and>
        (row_nulls (rows ! k) ! 17 \<longleftrightarrow> analyze_timestamp (ts ! k) = 0) \<and>
        (analyze_timestamp (ts ! k) \<noteq> 0 \<longrightarrow>
           row_values (rows ! k) ! 17 = TimestampTzGetDatum (analyze_timestamp (ts ! k))) \<and>
        (row_nulls (rows ! k) ! 19 \<longleftrightarrow> autovac_analyze_timestamp (ts ! k) = 0) \<and>
        (autovac_analyze_timestamp (ts ! k) \<noteq> 0 \<longrightarrow>
           row_values (rows ! k) ! 19 =
             TimestampTzGetDatum (autovac_analyze_timestamp (ts ! k))))"
proof (intro impI, elim conjE)
  assume a: "snd (powa_stat_all_rel h fcinfo s) = Inr rows"
    "stat_dbentry h (arg0 fcinfo) (arg0 fcinfo) = Fetched (Some e)" "tables e = Some ts"
  note r = all_rel_rows [OF a]
  have l: "length rows \<le> length ts" "functions_tab e \<noteq> None \<longrightarrow> length rows = length ts"
    by (simp_all add: r)
  have k: "rows ! k = fst (tab_row (ts ! k))" if "k < length rows" for k
    using that r by (auto split: if_splits)
  from l k tab_row_timestamps show
    "length rows \<le> length ts \<and>
     (functions_tab e \<noteq> None \<longrightarrow> length rows = length ts) \<and>
     (\<forall>k<length rows.
        (row_nulls (rows ! k) ! 13 \<longleftrightarrow> vacuum_timestamp (ts ! k) = 0) \<and>
        (vacuum_timestamp (ts ! k) \<noteq> 0 \<longrightarrow>
           row_values (rows ! k) ! 13 = TimestampTzGetDatum (vacuum_timestamp (ts ! k))) \<and>
        (row_nulls (rows ! k) ! 15 \<longleftrightarrow> autovac_vacuum_timestamp (ts ! k) = 0) \<and>
        (autovac_vacuum_timestamp (ts ! k) \<noteq> 0 \<longrightarrow>
           row_values (rows ! k) ! 15 =
             TimestampTzGetDatum (autovac_vacuum_timestamp (ts ! k))) \<and>
        (row_nulls (rows ! k) ! 17 \<longleftrightarrow> analyze_timestamp (ts ! k) = 0) \<and>
        (analyze_timestamp (ts ! k) \<noteq> 0 \<longrightarrow>
           row_values (rows ! k) ! 17 = TimestampTzGetDatum (analyze_timestamp (ts ! k))) \<and>
        (row_nulls (rows ! k) ! 19 \<longleftrightarrow> autovac_analyze_timestamp (ts ! k) = 0) \<and>
        (autovac_analyze_timestamp (ts ! k) \<noteq> 0 \<longrightarrow>
           row_values (rows ! k) ! 19 =
             TimestampTzGetDatum (autovac_analyze_timestamp (ts ! k))))"
    by simp
qed


theorem timestamp_null_iff_zero_witness:
  "snd (powa_stat_all_rel (store_of three_relations) (materializing_caller 16384) backend) =
     Inr [fst (tab_row (rel 1 0)), fst (tab_row (rel 2 500)), fst (tab_row (rel 3 0))] \<and>
   stat_dbentry (store_of three_relations) (arg0 (materializing_caller 16384))
     (arg0 (materializing_caller 16384)) = Fetched (Some three_relations) \<and>
   tables three_relations = Some [rel 1 0, rel 2 500, rel 3 0] \<and>
   vacuum_timestamp (rel 1 0) = 0 \<and>
   row_nulls (fst (tab_row (rel 1 0))) ! 13 \<and>
   vacuum_timestamp (rel 2 500) \<noteq> 0 \<and>
   \<not> row_nulls (fst (tab_row (rel 2 500))) ! 13 \<and>
   row_values (fst (tab_row (rel 2 500))) ! 13 = TimestampTzGetDatum 500"
proof -
  let ?rows = "[fst (tab_row (rel 1 0)), fst (tab_row (rel 2 500)), fst (tab_row (rel 3 0))]"
  let ?ts = "[rel 1 0, rel 2 500, rel 3 0]"
  have d: "databaseid three_relations = 16384" and t: "tables three_relations = Some ?ts"
    by (simp_all add: three_relations_def)
  have v: "vacuum_timestamp (rel 1 0) = 0" "vacuum_timestamp (rel 2 500) = 500"
    by (simp_all add: rel_def)
  from timestamp_null_iff_zero [of "store_of three_relations" "materializing_caller 16384" backend ?rows
      three_relations ?ts] sample_all_rel sample_fetch [OF d] t
  have a: "\<forall>k<length ?rows.
        (row_nulls (?rows ! k) ! 13 \<longleftrightarrow> vacuum_timestamp (?ts ! k) = 0) \<and>
        (vacuum_timestamp (?ts ! k) \<noteq> 0 \<longrightarrow>
           row_values (?rows ! k) ! 13 = TimestampTzGetDatum (vacuum_timestamp (?ts ! k)))"
    by blast
  from a [rule_format, of 0] a [rule_format, of 1] v
  have "row_nulls (fst (tab_row (rel 1 0))) ! 13"
    "\<not> row_nulls (fst (tab_row (rel 2 500))) ! 13"
    "row_values (fst (tab_row (rel 2 500))) ! 13 = TimestampTzGetDatum 500"
    by simp_all
  with sample_all_rel sample_fetch [OF d] t v show ?thesis by simp
qed

text \<open>
  C8. In the rows that \<^verbatim>\<open>powa_stat_user_functions\<close> returns, row \<open>k\<close> is built
  from function \<open>k\<close> of the entry: its identifier, its number of calls, and its
  total and self times divided by 1000, none of them null. In the rows that
  \<^verbatim>\<open>powa_stat_all_rel\<close> returns, row \<open>k\<close> is built from relation \<open>k\<close>: its
  identifier and its counters as they are, except that column 11 is
  \<^verbatim>\<open>blocks_fetched - blocks_hit\<close>; the four counts of vacuums and analyzes are in
  columns 14, 16, 18 and 20; none of these columns is null.
\<close>

theorem counters_copied:
  "(snd (powa_stat_user_functions h fcinfo s) = Inr rows \<and>
    stat_dbentry h (arg0 fcinfo) (arg0 fcinfo) = Fetched (Some e) \<and>
    functions_tab e = Some fs \<longrightarrow>
      length rows = length fs \<and>
      (\<forall>k<length fs.
         rows ! k =
           \<lparr>row_values =
              [ObjectIdGetDatum (functionid (fs ! k)),
               Int64GetDatum (f_numcalls (fs ! k)),
               Float8GetDatum (real_of_int (sint (f_total_time (fs ! k))) / 1000),
               Float8GetDatum (real_of_int (sint (f_self_time (fs ! k))) / 1000)],
            row_nulls = [False, False, False, False]\<rparr>)) \<and>
   (snd (powa_stat_all_rel h fcinfo s) = Inr rows' \<and>
    stat_dbentry h (arg0 fcinfo) (arg0 fcinfo) = Fetched (Some e) \<and>
    tables e = Some ts \<longrightarrow>
      length rows' \<le> length ts \<and>
      (\<forall>k<length rows'.
         take 13 (row_values (rows' ! k)) =
           [ObjectIdGetDatum (tableid (ts ! k)),
            Int64GetDatum (numscans (ts ! k)),
            Int64GetDatum (tuples_returned (ts ! k)),
            Int64GetDatum (tuples_fetched (ts ! k)),
            Int64GetDatum (tuples_inserted (ts ! k)),
            Int64GetDatum (tuples_updated (ts ! k)),
            Int64GetDatum (tuples_deleted (ts ! k)),
            Int64GetDatum (tuples_hot_updated (ts ! k)),
            Int64GetDatum (n_live_tuples (ts ! k)),
            Int64GetDatum (n_dead_tuples (ts ! k)),
            Int64GetDatum (changes_since_analyze (ts ! k)),
            Int64GetDatum (blocks_fetched (ts ! k) - blocks_hit (ts ! k)),
            Int64GetDatum (blocks_hit (ts ! k))] \<and>
         row_values (rows' ! k) ! 14 = Int64GetDatum (vacuum_count (ts ! k)) \<and>
         row_values (rows' ! k) ! 16 = Int64GetDatum (autovac_vacuum_count (ts ! k)) \<and>
         row_values (rows' ! k) ! 18 = Int64GetDatum (analyze_count (ts ! k)) \<and>
         row_values (rows' ! k) ! 20 = Int64GetDatum (autovac_analyze_count (ts ! k)) \<and>
         length (row_values (rows' ! k)) = 21 \<and>
         take 13 (row_nulls (rows' ! k)) = replicate 13 False \<and>
         \<not> row_nulls (rows' ! k) ! 14 \<and> \<not> row_nulls (rows' ! k) ! 16 \<and>
         \<not> row_nulls (rows' ! k) ! 18 \<and> \<not> row_nulls (rows' ! k) ! 20))"
proof (intro conjI impI; elim conjE)
  assume a: "snd (powa_stat_user_functions h fcinfo s) = Inr rows"
    "stat_dbentry h (arg0 fcinfo) (arg0 fcinfo) = Fetched (Some e)" "functions_tab e = Some fs"
  note r = user_functions_rows [OF a]
  show "length rows = length fs" by (simp add: r)
  show "\<forall>k<length fs.
         rows ! k =
           \<lparr>row_values =
              [ObjectIdGetDatum (functionid (fs ! k)),
               Int64GetDatum (f_numcalls (fs ! k)),
               Float8GetDatum (real_of_int (sint (f_total_time (fs ! k))) / 1000),
               Float8GetDatum (real_of_int (sint (f_self_time (fs ! k))) / 1000)],
            row_nulls = [False, False, False, False]\<rparr>"
    by (simp add: r func_row_eq)
next
  assume a: "snd (powa_stat_all_rel h fcinfo s) = Inr rows'"
    "stat_dbentry h (arg0 fcinfo) (arg0 fcinfo) = Fetched (Some e)" "tables e = Some ts"
  note r = all_rel_rows [OF a]
  show "length rows' \<le> length ts" by (simp add: r)
  have k: "rows' ! k = fst (tab_row (ts ! k))" if "k < length rows'" for k
    using that r by (auto split: if_splits)
  show "\<forall>k<length rows'.
         take 13 (row_values (rows' ! k)) =
           [ObjectIdGetDatum (tableid (ts ! k)),
            Int64GetDatum (numscans (ts ! k)),
            Int64GetDatum (tuples_returned (ts ! k)),
            Int64GetDatum (tuples_fetched (ts ! k)),
            Int64GetDatum (tuples_inserted (ts ! k)),
            Int64GetDatum (tuples_updated (ts ! k)),
            Int64GetDatum (tuples_deleted (ts ! k)),
            Int64GetDatum (tuples_hot_updated (ts ! k)),
            Int64GetDatum (n_live_tuples (ts ! k)),
            Int64GetDatum (n_dead_tuples (ts ! k)),
            Int64GetDatum (changes_since_analyze (ts ! k)),
            Int64GetDatum (blocks_fetched (ts ! k) - blocks_hit (ts ! k)),
            Int64GetDatum (blocks_hit (ts ! k))] \<and>
         row_values (rows' ! k) ! 14 = Int64GetDatum (vacuum_count (ts ! k)) \<and>
         row_values (rows' ! k) ! 16 = Int64GetDatum (autovac_vacuum_count (ts ! k)) \<and>
         row_values (rows' ! k) ! 18 = Int64GetDatum (analyze_count (ts ! k)) \<and>
         row_values (rows' ! k) ! 20 = Int64GetDatum (autovac_analyze_count (ts ! k)) \<and>
         length (row_values (rows' ! k)) = 21 \<and>
         take 13 (row_nulls (rows' ! k)) = replicate 13 False \<and>
         \<not> row_nulls (rows' ! k) ! 14 \<and> \<not> row_nulls (rows' ! k) ! 16 \<and>
         \<not> row_nulls (rows' ! k) ! 18 \<and> \<not> row_nulls (rows' ! k) ! 20"
    by (simp add: k tab_row_eq eval_nat_numeral)
qed

theorem counters_copied_witness:
  "snd (powa_stat_user_functions (store_of one_function) (materializing_caller 16384) backend) =
     Inr [fst (func_row (func 77))] \<and>
   stat_dbentry (store_of one_function) (arg0 (materializing_caller 16384))
     (arg0 (materializing_caller 16384)) = Fetched (Some one_function) \<and>
   functions_tab one_function = Some [func 77] \<and>
   fst (func_row (func 77)) =
     \<lparr>row_values = [ObjectIdGetDatum 77, Int64GetDatum 4, Float8GetDatum (5 / 2),
                     Float8GetDatum (3 / 2)],
      row_nulls = [False, False, False, False]\<rparr> \<and>
   snd (powa_stat_all_rel (store_of three_relations) (materializing_caller 16384) backend) =
     Inr [fst (tab_row (rel 1 0)), fst (tab_row (rel 2 500)), fst (tab_row (rel 3 0))] \<and>
   stat_dbentry (store_of three_relations) (arg0 (materializing_caller 16384))
     (arg0 (materializing_caller 16384)) = Fetched (Some three_relations) \<and>
   tables three_relations = Some [rel 1 0, rel 2 500, rel 3 0] \<and>
   row_values (fst (tab_row (rel 1 0))) ! 11 = Int64GetDatum 30 \<and>
   row_values (fst (tab_row (rel 1 0))) ! 12 = Int64GetDatum 60 \<and>
   row_values (fst (tab_row (rel 1 0))) ! 14 = Int64GetDatum 1"
proof -
  let ?rows = "[fst (tab_row (rel 1 0)), fst (tab_row (rel 2 500)), fst (tab_row (rel 3 0))]"
  let ?ts = "[rel 1 0, rel 2 500, rel 3 0]"
  have d: "databaseid three_relations = 16384" and t: "tables three_relations = Some ?ts"
    and d': "databaseid one_function = 16384"
    and f: "functions_tab one_function = Some [func 77]"
    by (simp_all add: three_relations_def one_function_def)
  note inst = counters_copied [where h = "store_of one_function" and fcinfo = "materializing_caller 16384"
      and s = backend and rows = "[fst (func_row (func 77))]" and e = one_function
      and fs = "[func 77]"]
  from inst sample_user_functions sample_fetch [OF d'] f
  have "\<forall>k<length [func 77]. [fst (func_row (func 77))] ! k =
           \<lparr>row_values =
              [ObjectIdGetDatum (functionid ([func 77] ! k)),
               Int64GetDatum (f_numcalls ([func 77] ! k)),
               Float8GetDatum (real_of_int (sint (f_total_time ([func 77] ! k))) / 1000),
               Float8GetDatum (real_of_int (sint (f_self_time ([func 77] ! k))) / 1000)],
            row_nulls = [False, False, False, False]\<rparr>"
    by blast
  from this [rule_format, of 0]
  have a: "fst (func_row (func 77)) =
     \<lparr>row_values = [ObjectIdGetDatum 77, Int64GetDatum 4, Float8GetDatum (5 / 2),
                     Float8GetDatum (3 / 2)],
      row_nulls = [False, False, False, False]\<rparr>"
    by (simp add: func_def)
  have b: "row_values (fst (tab_row (rel 1 0))) ! 11 = Int64GetDatum 30"
    "row_values (fst (tab_row (rel 1 0))) ! 12 = Int64GetDatum 60"
    "row_values (fst (tab_row (rel 1 0))) ! 14 = Int64GetDatum 1"
    by (simp_all add: tab_row_eq rel_def)
  from a b sample_user_functions sample_all_rel sample_fetch [OF d] sample_fetch [OF d'] t f
  show ?thesis by simp
qed

end
